theory Spec2Isabelle
  imports Complex_Main
begin

section \<open>Tensors and the model object\<close>

text \<open>
  The program is a TypeScript class \<open>IMLELabModel\<close>, written against the tensor library
  \<open>tfjs-core\<close>, and the training loop \<open>iterateTraining\<close> of the page component that
  owns a model. The sources hold several variants of each:
  \<^item> \<open>src/demo/imle_model.ts\<close> holds two classes. The first (the refined variant)
    initialises with the Glorot rule, uses leaky ReLU and shifts \<open>tanh\<close> by 0.5; the second
    (the legacy variant) initialises with \<open>1 / sqrt\<close>, uses ReLU and plain \<open>tanh\<close>.
    Their \<open>nearest_neighbour\<close>, \<open>imleLoss\<close>, \<open>loadPretrainedWeights\<close> and
    \<open>updateOptimizer\<close> are the same.
  \<^item> \<open>src/unnamed/part_000\<close> is a third class, like the legacy variant but without the
    rejection threshold \<open>epsilon\<close>, with the metrics \<open>L1\<close> and \<open>L2\<close> and the optimizers
    Adam and SGD only.
  \<^item> \<open>src/demo/imlelab.ts\<close> and \<open>src/unnamed/part_001\<close> are two variants of the page
    component; both construct the model with the six arguments of the classes of
    \<open>imle_model.ts\<close>.

  Numbers are modelled as mathematical reals: rounding of 32-bit floats, infinities and
  NaN are outside the model. Sizes and counts are natural numbers.

  A tensor carries its element type, its shape and its values in row-major order, as
  in the library.
\<close>

datatype dtype = DFloat32 | DInt32 | DBool

record tensor =
  dtype :: dtype
  shape :: "nat list"
  vals :: "real list"

text \<open>The four optimizers of \<open>tf.train\<close>, each with the arguments of its constructor call.\<close>

datatype optimizer =
    Adam real real real
  | Adagrad real
  | RMSProp real real real real bool
  | SGD real

text \<open>
  The fields of the class (\<open>imle_model.ts\<close>). \<open>gOptimizer\<close> is declared without an
  initial value and is set by \<open>updateOptimizer\<close> only, hence the option. The field
  \<open>lossType\<close> is declared and never read or written; it is left out.
\<close>

record IMLELabModel =
  gVariables :: "tensor list"
  gOptimizer :: "optimizer option"
  noiseSize :: nat
  numGeneratorLayers :: nat
  numGeneratorNeurons :: nat
  noiseCoefficient :: real
  distanceType :: string
  epsilon :: real

text \<open>
  The constructor stores its six arguments; \<open>gVariables\<close> starts as the empty array.
\<close>

definition new_IMLELabModel ::
  "nat \<Rightarrow> nat \<Rightarrow> nat \<Rightarrow> real \<Rightarrow> string \<Rightarrow> real \<Rightarrow> IMLELabModel" where
  "new_IMLELabModel ns nl nn nc dt eps =
     \<lparr>gVariables = [], gOptimizer = None, noiseSize = ns, numGeneratorLayers = nl,
      numGeneratorNeurons = nn, noiseCoefficient = nc, distanceType = dt, epsilon = eps\<rparr>"

section \<open>Operations of the tensor library\<close>

text \<open>
  What can go wrong in the library calls the program makes: an operand that is
  \<open>undefined\<close> (an array read past the end, a missing key), shapes or element types
  that do not fit, an index outside a tensor, an empty list of tensors to concatenate.
\<close>

datatype error = TypeError | ShapeMismatch | DTypeMismatch | IndexOutOfRange | InvalidArgument

definition bindE :: "error + 'a \<Rightarrow> ('a \<Rightarrow> error + 'b) \<Rightarrow> error + 'b" where
  "bindE r f = (case r of Inl e \<Rightarrow> Inl e | Inr x \<Rightarrow> f x)"

definition map_vals :: "(real \<Rightarrow> real) \<Rightarrow> tensor \<Rightarrow> tensor" where
  "map_vals f t = t\<lparr>vals := map f (vals t)\<rparr>"

text \<open>
  \<open>a.matMul(b)\<close> on matrices \<open>[n, k]\<close> and \<open>[k, p]\<close>; the inner dimensions must agree.
\<close>

definition matMul :: "tensor \<Rightarrow> tensor \<Rightarrow> error + tensor" where
  "matMul a b =
     (case shape a of
        [n, k] \<Rightarrow>
          (case shape b of
             [k', p] \<Rightarrow>
               if k = k' then
                 Inr \<lparr>dtype = DFloat32, shape = [n, p],
                      vals = concat (map (\<lambda>i. map (\<lambda>j.
                               sum_list (map (\<lambda>l. vals a ! (i * k + l) * vals b ! (l * p + j)) [0..<k]))
                               [0..<p]) [0..<n])\<rparr>
               else Inl ShapeMismatch
           | _ \<Rightarrow> Inl ShapeMismatch)
      | _ \<Rightarrow> Inl ShapeMismatch)"

text \<open>
  \<open>a.add(b)\<close> for a matrix \<open>[n, k]\<close> and a vector \<open>[k']\<close>, with the library's
  broadcasting: the widths agree or one of them is 1. The bias variables of the
  generator are vectors; operands of other ranks are not modelled and are reported as a
  shape mismatch.
\<close>

definition add :: "tensor \<Rightarrow> tensor \<Rightarrow> error + tensor" where
  "add a b =
     (case shape a of
        [n, k] \<Rightarrow>
          (case shape b of
             [k'] \<Rightarrow>
               if k = k' \<or> k' = 1 \<or> k = 1 then
                 Inr \<lparr>dtype = DFloat32, shape = [n, if k = 1 then k' else k],
                      vals = concat (map (\<lambda>i. map (\<lambda>j.
                               vals a ! (i * k + (if k = 1 then 0 else j))
                                 + vals b ! (if k' = 1 then 0 else j))
                               [0..<(if k = 1 then k' else k)]) [0..<n])\<rparr>
               else Inl ShapeMismatch
           | _ \<Rightarrow> Inl ShapeMismatch)
      | _ \<Rightarrow> Inl ShapeMismatch)"

text \<open>
  \<open>leaky(x, a = 0.01)\<close> of \<open>imle_model.ts\<close>: \<open>tf.maximum(x, x.mul(alpha))\<close>; and the
  library's \<open>relu\<close>.
\<close>

definition leaky :: "tensor \<Rightarrow> real \<Rightarrow> tensor" where
  "leaky x a = map_vals (\<lambda>v. max v (v * a)) x"

definition relu :: "tensor \<Rightarrow> tensor" where
  "relu x = map_vals (\<lambda>v. max v 0) x"

text \<open>
  The library's random generator is a source of standard normal draws, consumed in
  order: \<open>tf.randomNormal(shape, mean, std)\<close> takes as many draws as the tensor has
  entries and returns \<open>mean + std * z\<close> for each draw \<open>z\<close>; \<open>normal_at g p\<close> is the
  tensor made from the draws at positions \<open>p, p + 1, \<dots>\<close>
\<close>

record rng =
  draws :: "nat \<Rightarrow> real"
  pos :: nat

definition normal_at :: "rng \<Rightarrow> nat \<Rightarrow> nat list \<Rightarrow> real \<Rightarrow> real \<Rightarrow> tensor" where
  "normal_at g p shp mean std =
     \<lparr>dtype = DFloat32, shape = shp,
      vals = map (\<lambda>k. mean + std * draws g (p + k)) [0..<prod_list shp]\<rparr>"

definition randomNormal :: "rng \<Rightarrow> nat list \<Rightarrow> real \<Rightarrow> real \<Rightarrow> tensor \<times> rng" where
  "randomNormal g shp mean std =
     (normal_at g (pos g) shp mean std, g\<lparr>pos := pos g + prod_list shp\<rparr>)"

definition zeros :: "nat list \<Rightarrow> tensor" where
  "zeros shp = \<lparr>dtype = DFloat32, shape = shp, vals = replicate (prod_list shp) 0\<rparr>"

section \<open>The generator network\<close>

text \<open>
  \<open>h.matMul(gVariables[k]).add(gVariables[k + 1])\<close>. Reading the array past its end
  gives \<open>undefined\<close>, on which the library call throws.
\<close>

definition dense :: "tensor list \<Rightarrow> nat \<Rightarrow> tensor \<Rightarrow> error + tensor" where
  "dense vs k h =
     (if k < length vs then
        bindE (matMul h (vs ! k))
          (\<lambda>y. if Suc k < length vs then add y (vs ! Suc k) else Inl TypeError)
      else Inl TypeError)"

text \<open>
  The loop \<open>for (let i = 0; i < this.numGeneratorLayers; ++i)\<close> of \<open>generator\<close>, with
  the hidden activation as a parameter; the first argument counts the iterations left.
\<close>

primrec hidden_loop ::
  "(tensor \<Rightarrow> tensor) \<Rightarrow> tensor list \<Rightarrow> nat \<Rightarrow> nat \<Rightarrow> tensor \<Rightarrow> error + tensor" where
  "hidden_loop act vs 0 i h = Inr h"
| "hidden_loop act vs (Suc n) i h =
     bindE (dense vs (2 + i * 2) h) (\<lambda>y. hidden_loop act vs n (Suc i) (act y))"

text \<open>
  \<open>generator\<close> of the refined variant (\<open>imle_model.ts\<close>, first class): leaky ReLU in the
  hidden layers, \<open>tanh\<close> shifted by \<open>0.5\<close> at the output.
\<close>

definition generator :: "IMLELabModel \<Rightarrow> tensor \<Rightarrow> error + tensor" where
  "generator m noiseTensor =
     bindE (dense (gVariables m) 0 noiseTensor) (\<lambda>y0.
     bindE (hidden_loop (\<lambda>t. leaky t (1 / 100)) (gVariables m) (numGeneratorLayers m) 0
              (leaky y0 (1 / 100))) (\<lambda>h.
     bindE (dense (gVariables m) (2 + numGeneratorLayers m * 2) h) (\<lambda>z.
     Inr (map_vals (\<lambda>v. v + 1 / 2) (map_vals tanh z)))))"

text \<open>
  \<open>generator\<close> of the legacy variant (\<open>imle_model.ts\<close>, second class, and
  \<open>src/unnamed/part_000\<close>): ReLU in the hidden layers, plain \<open>tanh\<close> at the output.
\<close>

definition generator_legacy :: "IMLELabModel \<Rightarrow> tensor \<Rightarrow> error + tensor" where
  "generator_legacy m noiseTensor =
     bindE (dense (gVariables m) 0 noiseTensor) (\<lambda>y0.
     bindE (hidden_loop relu (gVariables m) (numGeneratorLayers m) 0 (relu y0)) (\<lambda>h.
     bindE (dense (gVariables m) (2 + numGeneratorLayers m * 2) h) (\<lambda>z.
     Inr (map_vals tanh z))))"

text \<open>A one-hidden-layer generator with hand-set weights, used to exercise the definitions.\<close>

definition tinyModel :: IMLELabModel where
  "tinyModel = (new_IMLELabModel 1 1 1 0 ''L2'' 0)
     \<lparr>gVariables :=
        [\<lparr>dtype = DFloat32, shape = [1, 1], vals = [1]\<rparr>,
         \<lparr>dtype = DFloat32, shape = [1], vals = [0]\<rparr>,
         \<lparr>dtype = DFloat32, shape = [1, 1], vals = [- 1]\<rparr>,
         \<lparr>dtype = DFloat32, shape = [1], vals = [0]\<rparr>,
         \<lparr>dtype = DFloat32, shape = [1, 2], vals = [1, - 1]\<rparr>,
         \<lparr>dtype = DFloat32, shape = [2], vals = [0, 0]\<rparr>]\<rparr>"

definition oneNoise :: tensor where
  "oneNoise = \<lparr>dtype = DFloat32, shape = [2, 1], vals = [1, - 2]\<rparr>"

section \<open>Initialisation, weight loading and optimizer selection\<close>

subsection \<open>initializeModelVariables\<close>

text \<open>
  The disposal of the previous variables releases memory and has no counterpart here.
  The hidden width is at least 1 on the page; for a width of 0 the quotients below are
  \<open>Infinity\<close> in the program and 0 in HOL.
\<close>

definition glorotStd :: "nat \<Rightarrow> nat \<Rightarrow> real" where
  "glorotStd fanIn fanOut = sqrt (2 / (real fanIn + real fanOut))"

text \<open>
  The loop over the hidden layers: each iteration draws a weight matrix \<open>[N, N]\<close> with
  the given standard deviation and pushes it with a zero bias \<open>[N]\<close>.
\<close>

primrec init_hidden :: "real \<Rightarrow> nat \<Rightarrow> nat \<Rightarrow> rng \<Rightarrow> tensor list \<times> rng" where
  "init_hidden std N 0 g = ([], g)"
| "init_hidden std N (Suc n) g =
     (let (gfcW, g1) = randomNormal g [N, N] 0 std;
          gfcB = zeros [N];
          (rest, g2) = init_hidden std N n g1
      in (gfcW # gfcB # rest, g2))"

text \<open>The refined variant (\<open>imle_model.ts\<close>, first class): \<open>glorotStd\<close> for every layer.\<close>

definition initializeModelVariables :: "IMLELabModel \<Rightarrow> rng \<Rightarrow> IMLELabModel \<times> rng" where
  "initializeModelVariables m g =
     (let N = numGeneratorNeurons m;
          (gfc0W, g1) = randomNormal g [noiseSize m, N] 0 (glorotStd (noiseSize m) N);
          gfc0B = zeros [N];
          (hidden, g2) = init_hidden (glorotStd N N) N (numGeneratorLayers m) g1;
          (gfcLastW, g3) = randomNormal g2 [N, 2] 0 (glorotStd N 2);
          gfcLastB = zeros [2]
      in (m\<lparr>gVariables := [gfc0W, gfc0B] @ hidden @ [gfcLastW, gfcLastB]\<rparr>, g3))"

text \<open>
  The legacy variant (\<open>imle_model.ts\<close>, second class, and \<open>src/unnamed/part_000\<close>):
  \<open>1 / Math.sqrt(2)\<close> for the first layer, \<open>1 / Math.sqrt(this.numGeneratorNeurons)\<close>
  for the hidden layers and for the last layer.
\<close>

definition initializeModelVariables_legacy :: "IMLELabModel \<Rightarrow> rng \<Rightarrow> IMLELabModel \<times> rng" where
  "initializeModelVariables_legacy m g =
     (let N = numGeneratorNeurons m;
          (gfc0W, g1) = randomNormal g [noiseSize m, N] 0 (1 / sqrt 2);
          gfc0B = zeros [N];
          (hidden, g2) = init_hidden (1 / sqrt (real N)) N (numGeneratorLayers m) g1;
          (gfcLastW, g3) = randomNormal g2 [N, 2] 0 (1 / sqrt (real N));
          gfcLastB = zeros [2]
      in (m\<lparr>gVariables := [gfc0W, gfc0B] @ hidden @ [gfcLastW, gfcLastB]\<rparr>, g3))"

text \<open>A random source all of whose draws are 1: every drawn entry equals \<open>mean + std\<close>.\<close>

definition unitDraws :: rng where
  "unitDraws = \<lparr>draws = (\<lambda>k. 1), pos = 0\<rparr>"

subsection \<open>loadPretrainedWeights\<close>

text \<open>
  The decimal numeral of an index, as the template literal \<open>`g-${i}`\<close> prints it.
\<close>

definition digit :: "nat \<Rightarrow> char" where
  "digit d = ''0123456789'' ! d"

function string_of_nat :: "nat \<Rightarrow> string" where
  "string_of_nat n =
     (if n < 10 then [digit n] else string_of_nat (n div 10) @ [digit (n mod 10)])"
  by pat_completeness auto
termination
  by (relation "measure (\<lambda>n. n)") auto

definition weightKey :: "nat \<Rightarrow> string" where
  "weightKey i = ''g-'' @ string_of_nat i"

text \<open>
  The weight file is the list of its named tensors, in the order of its
  \<open>weightSpecs\<close>; \<open>tf.io.decodeWeights\<close> stores them under their names one after the
  other, so a later entry of the same name replaces an earlier one.
\<close>

type_synonym ModelArtifacts = "(string \<times> tensor) list"

definition decodeWeights :: "ModelArtifacts \<Rightarrow> (string \<rightharpoonup> tensor)" where
  "decodeWeights loadedModel = fold (\<lambda>(name, t) out. out(name \<mapsto> t)) loadedModel Map.empty"

text \<open>
  \<open>Variable.assign(newValue)\<close> of the library: it throws when the element type or the
  shape of the new value differs from the variable's, and on \<open>undefined\<close> (a name the
  file does not hold); otherwise the variable takes the new value.
\<close>

definition assign :: "tensor \<Rightarrow> tensor option \<Rightarrow> error + tensor" where
  "assign v newValue =
     (case newValue of
        None \<Rightarrow> Inl TypeError
      | Some t \<Rightarrow>
          if dtype t \<noteq> dtype v then Inl DTypeMismatch
          else if shape t \<noteq> shape v then Inl ShapeMismatch
          else Inr t)"

text \<open>
  \<open>this.gVariables.forEach((v, i) => v.assign(decoded[`g-${i}`]))\<close>: the variables are
  assigned in order; an exception leaves the earlier ones assigned and the others as
  they were. The result is the array afterwards and the exception, if any.
\<close>

fun assign_each :: "(string \<rightharpoonup> tensor) \<Rightarrow> nat \<Rightarrow> tensor list \<Rightarrow> tensor list \<times> error option" where
  "assign_each decoded i [] = ([], None)"
| "assign_each decoded i (v # vs) =
     (case assign v (decoded (weightKey i)) of
        Inl e \<Rightarrow> (v # vs, Some e)
      | Inr v' \<Rightarrow> (case assign_each decoded (Suc i) vs of (vs', r) \<Rightarrow> (v' # vs', r)))"

definition loadPretrainedWeights ::
  "IMLELabModel \<Rightarrow> ModelArtifacts \<Rightarrow> IMLELabModel \<times> error option" where
  "loadPretrainedWeights m loadedModel =
     (case assign_each (decodeWeights loadedModel) 0 (gVariables m) of
        (vs, r) \<Rightarrow> (m\<lparr>gVariables := vs\<rparr>, r))"

text \<open>
  Two weight files for \<open>tinyModel\<close>: one written for its architecture, and a stale one
  whose last weight matrix was saved for a hidden width of 3.
\<close>

definition tinyWeights :: ModelArtifacts where
  "tinyWeights =
     [(''g-0'', \<lparr>dtype = DFloat32, shape = [1, 1], vals = [2]\<rparr>),
      (''g-1'', \<lparr>dtype = DFloat32, shape = [1], vals = [3]\<rparr>),
      (''g-2'', \<lparr>dtype = DFloat32, shape = [1, 1], vals = [4]\<rparr>),
      (''g-3'', \<lparr>dtype = DFloat32, shape = [1], vals = [5]\<rparr>),
      (''g-4'', \<lparr>dtype = DFloat32, shape = [1, 2], vals = [6, 7]\<rparr>),
      (''g-5'', \<lparr>dtype = DFloat32, shape = [2], vals = [8, 9]\<rparr>)]"

definition staleWeights :: ModelArtifacts where
  "staleWeights =
     [(''g-0'', \<lparr>dtype = DFloat32, shape = [1, 1], vals = [2]\<rparr>),
      (''g-1'', \<lparr>dtype = DFloat32, shape = [1], vals = [3]\<rparr>),
      (''g-2'', \<lparr>dtype = DFloat32, shape = [1, 1], vals = [4]\<rparr>),
      (''g-3'', \<lparr>dtype = DFloat32, shape = [1], vals = [5]\<rparr>),
      (''g-4'', \<lparr>dtype = DFloat32, shape = [3, 2], vals = [6, 7, 6, 7, 6, 7]\<rparr>),
      (''g-5'', \<lparr>dtype = DFloat32, shape = [2], vals = [8, 9]\<rparr>)]"

subsection \<open>updateOptimizer\<close>

text \<open>The \<open>switch\<close> of \<open>imle_model.ts\<close> (both classes of that file).\<close>

definition updateOptimizer :: "IMLELabModel \<Rightarrow> string \<Rightarrow> real \<Rightarrow> IMLELabModel" where
  "updateOptimizer m optimizerType learningRate =
     m\<lparr>gOptimizer := Some
        (if optimizerType = ''Adam'' then Adam learningRate (9 / 10) (999 / 1000)
         else if optimizerType = ''Adagrad'' then Adagrad learningRate
         else if optimizerType = ''RMSProp'' then
           RMSProp learningRate (9 / 10) 0 (1 / 10 ^ 8) False
         else SGD learningRate)\<rparr>"

text \<open>
  The \<open>if\<close> of \<open>src/unnamed/part_000\<close>, which knows \<open>Adam\<close> only: the value it
  stores in \<open>this.gOptimizer\<close>.
\<close>

definition updateOptimizer_part000 :: "string \<Rightarrow> real \<Rightarrow> optimizer" where
  "updateOptimizer_part000 optimizerType learningRate =
     (if optimizerType = ''Adam'' then Adam learningRate (9 / 10) (999 / 1000)
      else SGD learningRate)"

section \<open>Nearest-neighbour matching with rejection\<close>

text \<open>
  \<open>nearest_neighbour\<close> receives \<open>realData : [N_real, 2]\<close> and
  \<open>generatedData : [N_gen, 2]\<close>; a row of such a tensor is a point of the plane.
\<close>

type_synonym point = "real \<times> real"

subsection \<open>Reductions of the tensor library\<close>

text \<open>
  \<open>argMax\<close> and \<open>argMin\<close> return the position of the first greatest (least) entry;
  \<open>reduce_min\<close> is \<open>min\<close> along an axis. The value on an empty list stands for a
  reduction over an empty axis, which no caller in the program produces.
\<close>

fun argMax :: "real list \<Rightarrow> nat" where
  "argMax [] = 0"
| "argMax (x # xs) = (if xs = [] \<or> xs ! argMax xs \<le> x then 0 else Suc (argMax xs))"

fun argMin :: "real list \<Rightarrow> nat" where
  "argMin [] = 0"
| "argMin (x # xs) = (if xs = [] \<or> x \<le> xs ! argMin xs then 0 else Suc (argMin xs))"

fun reduce_min :: "real list \<Rightarrow> real" where
  "reduce_min [] = 0"
| "reduce_min (x # xs) = (if xs = [] then x else min x (reduce_min xs))"

subsection \<open>The distance matrix\<close>

text \<open>
  \<open>diff = realExpanded.sub(genExpanded)\<close> followed by the \<open>switch\<close> on
  \<open>this.distanceType\<close>: one cell of the \<open>[N_real, N_gen]\<close> matrix. \<open>sq_dist\<close> is
  \<open>diff.square().sum(2)\<close>, used by the \<open>Barrier\<close> case and by the default case.
\<close>

definition sq_dist :: "point \<Rightarrow> point \<Rightarrow> real" where
  "sq_dist r g = (fst r - fst g)\<^sup>2 + (snd r - snd g)\<^sup>2"

definition dist_cell :: "string \<Rightarrow> point \<Rightarrow> point \<Rightarrow> real" where
  "dist_cell dt r g =
     (if dt = ''L1'' then \<bar>fst r - fst g\<bar> + \<bar>snd r - snd g\<bar>
      else if dt = ''Barrier'' then
        (let lam = 1 / 1000; eps = 1 / 10 ^ 8; rr = sqrt (sq_dist r g)
         in rr + lam / (rr + eps))
      else sq_dist r g)"

definition distances :: "IMLELabModel \<Rightarrow> point list \<Rightarrow> point list \<Rightarrow> real list list" where
  "distances m realData generatedData =
     map (\<lambda>r. map (\<lambda>g. dist_cell (distanceType m) r g) generatedData) realData"

subsection \<open>Rejection filter, force-keep and masked assignment\<close>

text \<open>\<open>distances.min(0)\<close>: for each candidate the least entry of its column.\<close>

definition min_axis0 :: "real list list \<Rightarrow> nat \<Rightarrow> real list" where
  "min_axis0 D n = map (\<lambda>j. reduce_min (map (\<lambda>row. row ! j) D)) [0..<n]"

definition minDistToReal :: "IMLELabModel \<Rightarrow> point list \<Rightarrow> point list \<Rightarrow> real list" where
  "minDistToReal m realData generatedData =
     min_axis0 (distances m realData generatedData) (length generatedData)"

text \<open>\<open>minDistToReal.greater(tf.scalar(this.epsilon))\<close>: the mask before the force-keep.\<close>

definition greater_mask :: "real list \<Rightarrow> real \<Rightarrow> bool list" where
  "greater_mask md eps = map (\<lambda>d. eps < d) md"

text \<open>
  \<open>tf.range(0, depth, 1).equal(farIdxScalar)\<close> with \<open>depth = generatedData.shape[0] | 0\<close>;
  the coercion \<open>| 0\<close> is the identity on a tensor dimension.
\<close>

definition forceKeep :: "real list \<Rightarrow> nat \<Rightarrow> bool list" where
  "forceKeep md depth = map (\<lambda>j. j = argMax md) [0..<depth]"

definition logicalOr :: "bool list \<Rightarrow> bool list \<Rightarrow> bool list" where
  "logicalOr a b = map2 (\<or>) a b"

definition keepMask :: "IMLELabModel \<Rightarrow> point list \<Rightarrow> point list \<Rightarrow> bool list" where
  "keepMask m realData generatedData =
     logicalOr (greater_mask (minDistToReal m realData generatedData) (epsilon m))
               (forceKeep (minDistToReal m realData generatedData) (length generatedData))"

text \<open>
  \<open>distances.add(mask2D.mul(large))\<close>, where \<open>mask2D\<close> is the negated keep mask as
  floats (1 for a rejected column) and \<open>large = 1e9\<close>.
\<close>

definition large :: real where
  "large = 10 ^ 9"

definition mask_row :: "bool list \<Rightarrow> real list \<Rightarrow> real list" where
  "mask_row keep row = map2 (\<lambda>d k. d + (if k then 0 else 1) * large) row keep"

definition maskedDistances :: "IMLELabModel \<Rightarrow> point list \<Rightarrow> point list \<Rightarrow> real list list" where
  "maskedDistances m realData generatedData =
     map (mask_row (keepMask m realData generatedData)) (distances m realData generatedData)"

text \<open>\<open>maskedDistances.argMin(1)\<close>: one index into the candidates per real point.\<close>

definition nearest_neighbour :: "IMLELabModel \<Rightarrow> point list \<Rightarrow> point list \<Rightarrow> nat list" where
  "nearest_neighbour m realData generatedData =
     map argMin (maskedDistances m realData generatedData)"

text \<open>
  Two configurations used below: Scenario B of the specification (squared L2,
  \<open>epsilon = 0.1\<close>) and a configuration with \<open>epsilon = 0.01\<close>, the largest threshold the
  page offers.
\<close>

definition scenarioB :: IMLELabModel where
  "scenarioB = new_IMLELabModel 2 0 4 0 ''L2'' (1 / 10)"

definition farModel :: IMLELabModel where
  "farModel = new_IMLELabModel 2 0 4 0 ''L2'' (1 / 100)"

section \<open>The training iteration\<close>

subsection \<open>Input providers\<close>

text \<open>
  Modelled from the spec: the input providers (\<open>ganlab_input_providers\<close>, imported by
  \<open>imlelab.ts\<close> and not under \<open>src/\<close>). A provider "exposes \<open>nextBatch() -> Matrix\<close>,
  called once per needed batch"; the fixed variant "returns a stable, repeatable
  sequence". A provider is the sequence of its batches and the number of calls made so
  far; a fixed provider is one whose sequence repeats.
\<close>

record 'a provider =
  batchAt :: "nat \<Rightarrow> 'a"
  calls :: nat

definition getNextCopy :: "'a provider \<Rightarrow> 'a \<times> 'a provider" where
  "getNextCopy p = (batchAt p (calls p), p\<lparr>calls := Suc (calls p)\<rparr>)"

subsection \<open>Library operations of the loop\<close>

text \<open>
  \<open>tf.concat(batches, 0)\<close> of matrices of one width; \<open>latents.gather(nnIdx)\<close>, the rows
  of a matrix at the given indices; and the rows of a \<open>[N, 2]\<close> tensor as points, the
  form in which \<open>nearest_neighbour\<close> is modelled.
\<close>

definition concat0 :: "tensor list \<Rightarrow> error + tensor" where
  "concat0 ts =
     (case ts of
        [] \<Rightarrow> Inl InvalidArgument
      | t # rest \<Rightarrow>
          (case shape t of
             [n, w] \<Rightarrow>
               if list_all (\<lambda>u. length (shape u) = 2 \<and> shape u ! 1 = w) rest then
                 Inr \<lparr>dtype = dtype t, shape = [sum_list (map (\<lambda>u. shape u ! 0) ts), w],
                      vals = concat (map vals ts)\<rparr>
               else Inl ShapeMismatch
           | _ \<Rightarrow> Inl ShapeMismatch))"

definition gather :: "tensor \<Rightarrow> nat list \<Rightarrow> error + tensor" where
  "gather t idx =
     (case shape t of
        [n, w] \<Rightarrow>
          if list_all (\<lambda>i. i < n) idx then
            Inr \<lparr>dtype = dtype t, shape = [length idx, w],
                 vals = concat (map (\<lambda>i. map (\<lambda>j. vals t ! (i * w + j)) [0..<w]) idx)\<rparr>
          else Inl IndexOutOfRange
      | _ \<Rightarrow> Inl ShapeMismatch)"

definition as_points :: "tensor \<Rightarrow> error + point list" where
  "as_points t =
     (case shape t of
        [n, w] \<Rightarrow>
          if w = 2 then Inr (map (\<lambda>i. (vals t ! (2 * i), vals t ! (2 * i + 1))) [0..<n])
          else Inl ShapeMismatch
      | _ \<Rightarrow> Inl ShapeMismatch)"

subsection \<open>imleLoss\<close>

text \<open>
  \<open>realData.sub(generated).square().mean()\<close> for tensors of one shape (the matched
  latents have one row per real point).
\<close>

definition mse :: "tensor \<Rightarrow> tensor \<Rightarrow> error + real" where
  "mse realData generated =
     (if shape realData = shape generated then
        Inr (sum_list (map2 (\<lambda>a b. (a - b)\<^sup>2) (vals realData) (vals generated))
               / real (length (vals generated)))
      else Inl ShapeMismatch)"

text \<open>
  \<open>imleLoss\<close> draws the perturbation from the random generator at every call; the
  result is the loss, or the exception of the forward pass, and the generator after the
  draw. The forward pass is \<open>generator\<close> of the first class of \<open>imle_model.ts\<close>.
\<close>

definition imleLoss ::
  "IMLELabModel \<Rightarrow> rng \<Rightarrow> tensor \<Rightarrow> tensor \<Rightarrow> (error + real) \<times> rng" where
  "imleLoss m g realData matchedNoise =
     (case randomNormal g (shape matchedNoise) 0 1 of
        (z, g1) \<Rightarrow>
          (let perturbation = map_vals (\<lambda>v. v * noiseCoefficient m) z;
               perturbedLatents =
                 matchedNoise\<lparr>vals := map2 (+) (vals matchedNoise) (vals perturbation)\<rparr>
           in (bindE (generator m perturbedLatents) (\<lambda>generated. mse realData generated), g1)))"

subsection \<open>The page component\<close>

text \<open>
  The fields of the component that the training reads or writes. \<open>tfRandom\<close> is the
  library's random generator. An optimizer keeps slots of its own between steps (the
  moments of Adam, the accumulators of Adagrad and RMSProp); their type is left open.
\<close>

record 's GANLab =
  model :: IMLELabModel
  optimizerSlots :: 's
  kGSteps :: nat
  sampleFactor :: nat
  isPlaying :: bool
  iterationCount :: nat
  trueSampleProvider :: "tensor provider"
  noiseProvider :: "tensor provider"
  noiseProviderFixed :: "tensor provider"
  fixedLatents :: bool
  fixedLatentPool :: "tensor option"
  tfRandom :: rng

text \<open>
  \<open>optimizer.minimize(f, true, varList)\<close> of the library runs \<open>f\<close> once, differentiates
  the loss it returns with respect to the variables and updates them. It is a parameter
  of the model: from the optimizer, its slots, the loss as a function of the variables
  and the variables, it gives the new variables and slots. What a call of \<open>minimize\<close>
  differentiates is its third argument.
\<close>

type_synonym 's minimize =
  "optimizer \<Rightarrow> 's \<Rightarrow> (tensor list \<Rightarrow> error + real) \<Rightarrow> tensor list \<Rightarrow> tensor list \<times> 's"

text \<open>
  \<open>getLatentPoolFrom(provider, factor)\<close> (the same body as
  \<open>getLatentPoolFromProvider\<close> and \<open>getLatentPoolFromFixedProvider\<close>): \<open>factor\<close> batches,
  concatenated.
\<close>

primrec draw_batches :: "nat \<Rightarrow> tensor provider \<Rightarrow> tensor list \<times> tensor provider" where
  "draw_batches 0 p = ([], p)"
| "draw_batches (Suc n) p =
     (case getNextCopy p of
        (b, p1) \<Rightarrow> (case draw_batches n p1 of (bs, p2) \<Rightarrow> (b # bs, p2)))"

definition getLatentPoolFrom ::
  "tensor provider \<Rightarrow> nat \<Rightarrow> (error + tensor) \<times> tensor provider" where
  "getLatentPoolFrom provider factor =
     (case draw_batches factor provider of (batches, p) \<Rightarrow> (concat0 batches, p))"

text \<open>
  \<open>nearest_neighbour\<close> on tensors: both arguments are \<open>[N, 2]\<close> tensors, as the signature
  of the method documents; other shapes are not modelled and are reported as a shape
  mismatch.
\<close>

definition nearest_neighbour_t :: "IMLELabModel \<Rightarrow> tensor \<Rightarrow> tensor \<Rightarrow> error + nat list" where
  "nearest_neighbour_t m realData generatedData =
     bindE (as_points realData) (\<lambda>rp.
     bindE (as_points generatedData) (\<lambda>gp.
     Inr (nearest_neighbour m rp gp)))"


subsection \<open>iterateTraining of src/demo/imlelab.ts\<close>

text \<open>
  Of \<open>iterateTraining\<close> the guard on \<open>isPlaying\<close>, the iteration counter and the block
  "Train generator with IMLE" are modelled. The rendering blocks and the pauses of the
  slow mode between them do not touch the variables of the model, \<open>trueSampleProvider\<close>
  or the random generator (they draw from the fixed providers), and are left out: the
  state below is the one in which the training block starts.

  \<open>closure_body\<close> is the function passed to \<open>minimize\<close>, after its two draws from the
  providers: forward pass on the pool, matching, gathering, loss. It gives the loss (or
  the exception) and the random generator after the draw of \<open>imleLoss\<close>.
\<close>

definition closure_body ::
  "IMLELabModel \<Rightarrow> rng \<Rightarrow> tensor \<Rightarrow> tensor \<Rightarrow> (error + real) \<times> rng" where
  "closure_body m g realBatch latents =
     (case generator m latents of
        Inl e \<Rightarrow> (Inl e, g)
      | Inr genBatch \<Rightarrow>
          (case nearest_neighbour_t m realBatch genBatch of
             Inl e \<Rightarrow> (Inl e, g)
           | Inr nnIdx \<Rightarrow>
               (case gather latents nnIdx of
                  Inl e \<Rightarrow> (Inl e, g)
                | Inr matchedNoise \<Rightarrow> imleLoss m g realBatch matchedNoise)))"

text \<open>
  One pass of the loop body: \<open>this.model.gOptimizer.minimize(() => {...}, true,
  this.model.gVariables)\<close>. The closure draws a real batch from \<open>trueSampleProvider\<close> and
  a latent pool from \<open>noiseProviderFixed\<close>, then runs \<open>closure_body\<close>; an exception in it
  ends the iteration. The loss that \<open>minimize\<close> differentiates is \<open>closure_body\<close> as a
  function of the variables, for the batch, the pool and the random draws of this call.
\<close>

definition train_step :: "'s minimize \<Rightarrow> 's GANLab \<Rightarrow> error + 's GANLab" where
  "train_step minimize st =
     (case gOptimizer (model st) of
        None \<Rightarrow> Inl TypeError
      | Some opt \<Rightarrow>
          (case getNextCopy (trueSampleProvider st) of
             (realBatch, tp) \<Rightarrow>
               (case getLatentPoolFrom (noiseProviderFixed st) (sampleFactor st) of
                  (Inl e, np) \<Rightarrow> Inl e
                | (Inr latents, np) \<Rightarrow>
                    (case closure_body (model st) (tfRandom st) realBatch latents of
                       (Inl e, g1) \<Rightarrow> Inl e
                     | (Inr cost, g1) \<Rightarrow>
                         (case minimize opt (optimizerSlots st)
                                 (\<lambda>vs. fst (closure_body ((model st)\<lparr>gVariables := vs\<rparr>)
                                              (tfRandom st) realBatch latents))
                                 (gVariables (model st)) of
                            (vs', slots') \<Rightarrow>
                              Inr (st\<lparr>model := (model st)\<lparr>gVariables := vs'\<rparr>,
                                      optimizerSlots := slots',
                                      trueSampleProvider := tp,
                                      noiseProviderFixed := np,
                                      tfRandom := g1\<rparr>))))))"

text \<open>\<open>for (let j = 0; j < kGSteps; j++)\<close>; the second argument counts the passes left.\<close>

primrec train_loop :: "'s minimize \<Rightarrow> nat \<Rightarrow> 's GANLab \<Rightarrow> error + 's GANLab" where
  "train_loop minimize 0 st = Inr st"
| "train_loop minimize (Suc n) st = bindE (train_step minimize st) (train_loop minimize n)"

definition iterateTraining :: "'s minimize \<Rightarrow> 's GANLab \<Rightarrow> error + 's GANLab" where
  "iterateTraining minimize st =
     (if \<not> isPlaying st then Inr st
      else train_loop minimize (kGSteps st) (st\<lparr>iterationCount := Suc (iterationCount st)\<rparr>))"

subsection \<open>iterateTraining of src/unnamed/part_001\<close>

text \<open>
  Here the real batch, the latent pool and the match indices are computed at the top of
  \<open>iterateTraining\<close> and kept (\<open>tf.keep\<close>) for the whole iteration. One pass of the
  loop body: the closure gathers the matched latents and calls \<open>imleLoss\<close>; the loss that
  \<open>minimize\<close> differentiates is \<open>imleLoss\<close> as a function of the variables, for the kept
  batch, the gathered latents and the random draws of this call.
\<close>

definition optimize_step ::
  "'s minimize \<Rightarrow> tensor \<Rightarrow> tensor \<Rightarrow> nat list \<Rightarrow> 's GANLab \<Rightarrow> error + 's GANLab" where
  "optimize_step minimize realBatch latentPoolTrain nnIdxTrain st =
     (case gOptimizer (model st) of
        None \<Rightarrow> Inl TypeError
      | Some opt \<Rightarrow>
          (case gather latentPoolTrain nnIdxTrain of
             Inl e \<Rightarrow> Inl e
           | Inr matchedNoise \<Rightarrow>
               (case imleLoss (model st) (tfRandom st) realBatch matchedNoise of
                  (Inl e, g1) \<Rightarrow> Inl e
                | (Inr cost, g1) \<Rightarrow>
                    (case minimize opt (optimizerSlots st)
                            (\<lambda>vs. fst (imleLoss ((model st)\<lparr>gVariables := vs\<rparr>)
                                          (tfRandom st) realBatch matchedNoise))
                            (gVariables (model st)) of
                       (vs', slots') \<Rightarrow>
                         Inr (st\<lparr>model := (model st)\<lparr>gVariables := vs'\<rparr>,
                                 optimizerSlots := slots',
                                 tfRandom := g1\<rparr>)))))"

primrec optimize_loop ::
  "'s minimize \<Rightarrow> tensor \<Rightarrow> tensor \<Rightarrow> nat list \<Rightarrow> nat \<Rightarrow> 's GANLab \<Rightarrow> error + 's GANLab" where
  "optimize_loop minimize realBatch latentPoolTrain nnIdxTrain 0 st = Inr st"
| "optimize_loop minimize realBatch latentPoolTrain nnIdxTrain (Suc n) st =
     bindE (optimize_step minimize realBatch latentPoolTrain nnIdxTrain st)
       (optimize_loop minimize realBatch latentPoolTrain nnIdxTrain n)"

text \<open>
  The pool for the display: with \<open>fixedLatents\<close> set and a \<open>fixedLatentPool\<close> present,
  a forward pass and a matching on that pool, whose result is only drawn.
\<close>

definition viz_pool :: "IMLELabModel \<Rightarrow> bool \<Rightarrow> tensor option \<Rightarrow> tensor \<Rightarrow> error + unit" where
  "viz_pool m fixed pool realBatch =
     (case pool of
        None \<Rightarrow> Inr ()
      | Some latentPoolViz \<Rightarrow>
          if fixed then
            bindE (generator m latentPoolViz) (\<lambda>genPoolViz.
            bindE (nearest_neighbour_t m realBatch genPoolViz) (\<lambda>nnIdxViz. Inr ()))
          else Inr ())"

text \<open>
  The top of \<open>iterateTraining\<close>, before the loop: the draws from the providers, the
  forward pass and the matching, and the loss computed for the display (a call of
  \<open>imleLoss\<close>, which draws a perturbation). It gives the real batch, the latent pool and
  the match indices that are kept, and the state in which the loop starts.
\<close>

definition prepare_iteration ::
  "'s GANLab \<Rightarrow> error + tensor \<times> tensor \<times> nat list \<times> 's GANLab" where
  "prepare_iteration st =
     (case getNextCopy (trueSampleProvider st) of
        (realBatch, tp) \<Rightarrow>
          (case getLatentPoolFrom (noiseProvider st) (sampleFactor st) of
             (Inl e, np) \<Rightarrow> Inl e
           | (Inr latentPoolTrain, np) \<Rightarrow>
               (case generator (model st) latentPoolTrain of
                  Inl e \<Rightarrow> Inl e
                | Inr genPoolTrain \<Rightarrow>
                    (case nearest_neighbour_t (model st) realBatch genPoolTrain of
                       Inl e \<Rightarrow> Inl e
                     | Inr nnIdxTrain \<Rightarrow>
                         (case viz_pool (model st) (fixedLatents st) (fixedLatentPool st)
                                 realBatch of
                            Inl e \<Rightarrow> Inl e
                          | Inr u \<Rightarrow>
                              (case gather latentPoolTrain nnIdxTrain of
                                 Inl e \<Rightarrow> Inl e
                               | Inr matchedNoise \<Rightarrow>
                                   (case imleLoss (model st) (tfRandom st) realBatch
                                           matchedNoise of
                                      (Inl e, g1) \<Rightarrow> Inl e
                                    | (Inr gCost, g1) \<Rightarrow>
                                        Inr (realBatch, latentPoolTrain, nnIdxTrain,
                                             st\<lparr>iterationCount := Suc (iterationCount st),
                                                trueSampleProvider := tp,
                                                noiseProvider := np,
                                                tfRandom := g1\<rparr>))))))))"

text \<open>
  The guard, the top and the loop of \<open>kGSteps\<close> optimizer steps. As above, rendering
  and pauses are left out.
\<close>

definition iterateTraining_part001 :: "'s minimize \<Rightarrow> 's GANLab \<Rightarrow> error + 's GANLab" where
  "iterateTraining_part001 minimize st =
     (if \<not> isPlaying st then Inr st
      else
        (case prepare_iteration st of
           Inl e \<Rightarrow> Inl e
         | Inr (realBatch, latentPoolTrain, nnIdxTrain, st1) \<Rightarrow>
             optimize_loop minimize realBatch latentPoolTrain nnIdxTrain (kGSteps st) st1))"

subsection \<open>A small configuration of the page\<close>

text \<open>
  A generator without hidden layers whose last weight matrix is zero, so that every
  candidate is the point \<open>(0.5, 0.5)\<close> whatever the latent is; the noise coefficient and
  \<open>epsilon\<close> with which the page starts; two optimizer steps per iteration; a sample
  provider whose first batch is the point \<open>(0.5, 0.5)\<close> and whose later batches are the
  origin; noise providers that repeat one batch; and draws that are all 1. The optimizer
  is SGD with learning rate 0, whose step \<open>w - 0 * gradient\<close> leaves the variables as
  they are; \<open>recordCalls\<close> is that step, and it keeps in the slots the list of the loss
  functions it was given.
\<close>

definition flatModel :: IMLELabModel where
  "flatModel = (new_IMLELabModel 1 0 1 (1 / 1000) ''L2'' 0)
     \<lparr>gVariables :=
        [\<lparr>dtype = DFloat32, shape = [1, 1], vals = [1]\<rparr>,
         \<lparr>dtype = DFloat32, shape = [1], vals = [0]\<rparr>,
         \<lparr>dtype = DFloat32, shape = [1, 2], vals = [0, 0]\<rparr>,
         \<lparr>dtype = DFloat32, shape = [2], vals = [0, 0]\<rparr>],
      gOptimizer := Some (SGD 0)\<rparr>"

definition batchA :: tensor where
  "batchA = \<lparr>dtype = DFloat32, shape = [1, 2], vals = [1 / 2, 1 / 2]\<rparr>"

definition batchB :: tensor where
  "batchB = \<lparr>dtype = DFloat32, shape = [1, 2], vals = [0, 0]\<rparr>"

text \<open>
  The candidates that this generator makes of \<open>oneNoise\<close>, and row 0 of \<open>oneNoise\<close>, the
  latent matched to a batch of one real point when all candidates coincide.
\<close>

definition flatPool :: tensor where
  "flatPool = \<lparr>dtype = DFloat32, shape = [2, 2], vals = [1 / 2, 1 / 2, 1 / 2, 1 / 2]\<rparr>"

definition matchedA :: tensor where
  "matchedA = \<lparr>dtype = DFloat32, shape = [1, 1], vals = [1]\<rparr>"

definition recordCalls :: "(tensor list \<Rightarrow> error + real) list minimize" where
  "recordCalls opt slots lossFn vs = (vs, slots @ [lossFn])"

definition demoPage :: "(tensor list \<Rightarrow> error + real) list GANLab" where
  "demoPage =
     \<lparr>model = flatModel, optimizerSlots = [], kGSteps = 2, sampleFactor = 1,
      isPlaying = True, iterationCount = 0,
      trueSampleProvider = \<lparr>batchAt = (\<lambda>k. if k = 0 then batchA else batchB), calls = 0\<rparr>,
      noiseProvider = \<lparr>batchAt = (\<lambda>k. oneNoise), calls = 0\<rparr>,
      noiseProviderFixed = \<lparr>batchAt = (\<lambda>k. oneNoise), calls = 0\<rparr>,
      fixedLatents = False, fixedLatentPool = None,
      tfRandom = unitDraws\<rparr>"

section \<open>Properties of the generator\<close>

lemma bindE_Inr: "bindE r f = Inr y \<Longrightarrow> \<exists>x. r = Inr x \<and> f x = Inr y"
  by (cases r) (simp_all add: bindE_def)

lemma generator_vals:
  "generator m x = Inr out \<Longrightarrow> \<exists>us. vals out = map (\<lambda>v. tanh v + 1 / 2) us"
  unfolding generator_def
  by (auto dest!: bindE_Inr simp: map_vals_def comp_def)

lemma generator_legacy_vals:
  "generator_legacy m x = Inr out \<Longrightarrow> \<exists>us. vals out = map tanh us"
  unfolding generator_legacy_def
  by (auto dest!: bindE_Inr simp: map_vals_def)

lemma tanh_le_1: "tanh (x::real) \<le> 1" "- 1 \<le> tanh (x::real)"
  using tanh_real_lt_1 [of x] tanh_real_gt_neg1 [of x] by simp_all

lemmas gen_eval =
  generator_def generator_legacy_def dense_def bindE_def matMul_def add_def
  leaky_def relu_def map_vals_def tinyModel_def new_IMLELabModel_def oneNoise_def upt_rec

lemma generator_tinyModel:
  "generator tinyModel oneNoise =
     Inr \<lparr>dtype = DFloat32, shape = [2, 2],
          vals = [1 / 2 - tanh (1 / 100), tanh (1 / 100) + 1 / 2,
                  tanh (1 / 50) + 1 / 2, 1 / 2 - tanh (1 / 50)]\<rparr>"
  by (simp add: gen_eval)

lemma generator_legacy_tinyModel:
  "generator_legacy tinyModel oneNoise =
     Inr \<lparr>dtype = DFloat32, shape = [2, 2], vals = [0, 0, 0, 0]\<rparr>"
  by (simp add: gen_eval)

subsection \<open>Output range (C7)\<close>

text \<open>
  C7: whatever the latent input and the parameters, when the forward pass returns a
  tensor (it throws on operands that do not fit), every coordinate of it lies in
  \<open>[-0.5, 1.5]\<close> for the refined variant (\<open>tanh\<close> shifted by \<open>0.5\<close>) and in \<open>[-1, 1]\<close>
  for the variant with plain \<open>tanh\<close>.
\<close>

theorem generator_output_range:
  "(generator m noiseTensor = Inr out
      \<longrightarrow> (\<forall>v \<in> set (vals out). - (1 / 2) \<le> v \<and> v \<le> 3 / 2))
   \<and> (generator_legacy m noiseTensor = Inr out'
      \<longrightarrow> (\<forall>v \<in> set (vals out'). - 1 \<le> v \<and> v \<le> 1))"
proof (intro conjI impI ballI)
  fix v assume "generator m noiseTensor = Inr out" and v: "v \<in> set (vals out)"
  then obtain us where "vals out = map (\<lambda>v. tanh v + 1 / 2) us"
    using generator_vals by blast
  with v obtain u where "v = tanh u + 1 / 2" by auto
  then show "- (1 / 2) \<le> v" "v \<le> 3 / 2" using tanh_le_1 [of u] by simp_all
next
  fix v assume "generator_legacy m noiseTensor = Inr out'" and v: "v \<in> set (vals out')"
  then obtain us where "vals out' = map tanh us"
    using generator_legacy_vals by blast
  with v obtain u where "v = tanh u" by auto
  then show "- 1 \<le> v" "v \<le> 1" using tanh_le_1 [of u] by simp_all
qed

text \<open>
  Witness for C7: the forward pass of both variants on a two-row latent batch returns,
  and the first coordinate of each result is in range.
\<close>

theorem generator_output_range_witness:
  "generator tinyModel oneNoise =
     Inr \<lparr>dtype = DFloat32, shape = [2, 2],
          vals = [1 / 2 - tanh (1 / 100), tanh (1 / 100) + 1 / 2,
                  tanh (1 / 50) + 1 / 2, 1 / 2 - tanh (1 / 50)]\<rparr>
   \<and> generator_legacy tinyModel oneNoise =
     Inr \<lparr>dtype = DFloat32, shape = [2, 2], vals = [0, 0, 0, 0]\<rparr>
   \<and> - (1 / 2) \<le> 1 / 2 - tanh (1 / 100 :: real) \<and> 1 / 2 - tanh (1 / 100 :: real) \<le> 3 / 2
   \<and> - 1 \<le> (0 :: real) \<and> (0 :: real) \<le> 1"
  using generator_output_range
          [of tinyModel oneNoise
              "\<lparr>dtype = DFloat32, shape = [2, 2],
                vals = [1 / 2 - tanh (1 / 100), tanh (1 / 100) + 1 / 2,
                        tanh (1 / 50) + 1 / 2, 1 / 2 - tanh (1 / 50)]\<rparr>"
              "\<lparr>dtype = DFloat32, shape = [2, 2], vals = [0, 0, 0, 0]\<rparr>"]
        generator_tinyModel generator_legacy_tinyModel
  by simp

section \<open>Properties of initialisation, weight loading and optimizer selection\<close>

subsection \<open>The tensors that initializeModelVariables creates\<close>

lemma randomNormal_fst: "fst (randomNormal g shp mean std) = normal_at g (pos g) shp mean std"
  by (simp add: randomNormal_def)

lemma randomNormal_snd:
  "draws (snd (randomNormal g shp mean std)) = draws g"
  "pos (snd (randomNormal g shp mean std)) = pos g + prod_list shp"
  by (simp_all add: randomNormal_def)

lemma normal_at_draws: "draws g' = draws g \<Longrightarrow> normal_at g' p shp mean std = normal_at g p shp mean std"
  by (simp add: normal_at_def)

lemma init_hidden_rng:
  "draws (snd (init_hidden std N n g)) = draws g
   \<and> pos (snd (init_hidden std N n g)) = pos g + n * (N * N)"
proof (induction n arbitrary: g)
  case 0
  then show ?case by simp
next
  case (Suc n)
  show ?case
    using Suc.IH [of "snd (randomNormal g [N, N] 0 std)"]
    by (simp add: split_beta Let_def randomNormal_snd algebra_simps)
qed

lemma length_init_hidden: "length (fst (init_hidden std N n g)) = 2 * n"
  by (induction n arbitrary: g) (simp_all add: split_beta Let_def)

lemma init_hidden_nth:
  "i < n \<Longrightarrow>
   fst (init_hidden std N n g) ! (2 * i) = normal_at g (pos g + i * (N * N)) [N, N] 0 std
   \<and> fst (init_hidden std N n g) ! (2 * i + 1) = zeros [N]"
proof (induction n arbitrary: g i)
  case 0
  then show ?case by simp
next
  case (Suc n)
  let ?g1 = "snd (randomNormal g [N, N] 0 std)"
  show ?case
  proof (cases i)
    case 0
    then show ?thesis by (simp add: split_beta Let_def randomNormal_fst)
  next
    case (Suc k)
    with Suc.prems have k: "k < n" by simp
    from Suc.IH [OF k, of ?g1] Suc show ?thesis
      by (simp add: split_beta Let_def randomNormal_snd algebra_simps
          normal_at_draws [of ?g1 g])
  qed
qed

lemma init_vars:
  "gVariables (fst (initializeModelVariables m g)) =
     [normal_at g (pos g) [noiseSize m, numGeneratorNeurons m] 0
        (glorotStd (noiseSize m) (numGeneratorNeurons m)),
      zeros [numGeneratorNeurons m]]
     @ fst (init_hidden (glorotStd (numGeneratorNeurons m) (numGeneratorNeurons m))
              (numGeneratorNeurons m) (numGeneratorLayers m)
              (snd (randomNormal g [noiseSize m, numGeneratorNeurons m] 0
                     (glorotStd (noiseSize m) (numGeneratorNeurons m)))))
     @ [normal_at g (pos g + noiseSize m * numGeneratorNeurons m
                       + numGeneratorLayers m * (numGeneratorNeurons m * numGeneratorNeurons m))
          [numGeneratorNeurons m, 2] 0 (glorotStd (numGeneratorNeurons m) 2),
        zeros [2]]"
  by (simp add: initializeModelVariables_def split_beta Let_def randomNormal_fst
      randomNormal_snd init_hidden_rng normal_at_def)

lemma init_legacy_vars:
  "gVariables (fst (initializeModelVariables_legacy m g)) =
     [normal_at g (pos g) [noiseSize m, numGeneratorNeurons m] 0 (1 / sqrt 2),
      zeros [numGeneratorNeurons m]]
     @ fst (init_hidden (1 / sqrt (real (numGeneratorNeurons m)))
              (numGeneratorNeurons m) (numGeneratorLayers m)
              (snd (randomNormal g [noiseSize m, numGeneratorNeurons m] 0 (1 / sqrt 2))))
     @ [normal_at g (pos g + noiseSize m * numGeneratorNeurons m
                       + numGeneratorLayers m * (numGeneratorNeurons m * numGeneratorNeurons m))
          [numGeneratorNeurons m, 2] 0 (1 / sqrt (real (numGeneratorNeurons m))),
        zeros [2]]"
  by (simp add: initializeModelVariables_legacy_def split_beta Let_def randomNormal_fst
      randomNormal_snd init_hidden_rng normal_at_def)

text \<open>
  The refined scheme: every weight matrix is drawn with mean 0 and the standard
  deviation \<open>sqrt(2 / (fanIn + fanOut))\<close> of its layer, every bias is zero.
\<close>

lemma init_refined_layers:
  fixes m g
  defines "vs \<equiv> gVariables (fst (initializeModelVariables m g))"
    and "N \<equiv> numGeneratorNeurons m" and "L \<equiv> numGeneratorLayers m"
  shows "length vs = 2 * L + 4"
    and "vs ! 0 = normal_at g (pos g) [noiseSize m, N] 0 (glorotStd (noiseSize m) N)"
    and "vs ! 1 = zeros [N]"
    and "i < L \<Longrightarrow> vs ! (2 + 2 * i)
           = normal_at g (pos g + noiseSize m * N + i * (N * N)) [N, N] 0 (glorotStd N N)"
    and "i < L \<Longrightarrow> vs ! (3 + 2 * i) = zeros [N]"
    and "vs ! (2 + 2 * L)
           = normal_at g (pos g + noiseSize m * N + L * (N * N)) [N, 2] 0 (glorotStd N 2)"
    and "vs ! (3 + 2 * L) = zeros [2]"
proof -
  let ?g1 = "snd (randomNormal g [noiseSize m, N] 0 (glorotStd (noiseSize m) N))"
  let ?h = "fst (init_hidden (glorotStd N N) N L ?g1)"
  have vs: "vs = [normal_at g (pos g) [noiseSize m, N] 0 (glorotStd (noiseSize m) N), zeros [N]]
      @ ?h @ [normal_at g (pos g + noiseSize m * N + L * (N * N)) [N, 2] 0 (glorotStd N 2), zeros [2]]"
    unfolding vs_def N_def L_def by (rule init_vars)
  have lh: "length ?h = 2 * L" by (rule length_init_hidden)
  show "length vs = 2 * L + 4" by (simp add: vs lh)
  show "vs ! 0 = normal_at g (pos g) [noiseSize m, N] 0 (glorotStd (noiseSize m) N)"
    by (simp add: vs)
  show "vs ! 1 = zeros [N]" by (simp add: vs)
  show "vs ! (2 + 2 * L)
           = normal_at g (pos g + noiseSize m * N + L * (N * N)) [N, 2] 0 (glorotStd N 2)"
    by (simp add: vs nth_append lh)
  show "vs ! (3 + 2 * L) = zeros [2]"
    by (simp add: vs nth_append lh)
  {
    assume i: "i < L"
    have g1: "draws ?g1 = draws g" "pos ?g1 = pos g + noiseSize m * N"
      by (simp_all add: randomNormal_snd)
    from init_hidden_nth [OF i, of "glorotStd N N" N ?g1]
    have h: "?h ! (2 * i) = normal_at g (pos g + noiseSize m * N + i * (N * N)) [N, N] 0 (glorotStd N N)"
        "?h ! (2 * i + 1) = zeros [N]"
      by (simp_all add: g1 normal_at_draws [of ?g1 g])
    have "vs ! (2 + 2 * i) = ?h ! (2 * i)" using i by (simp add: vs nth_append lh)
    with h show "vs ! (2 + 2 * i)
           = normal_at g (pos g + noiseSize m * N + i * (N * N)) [N, N] 0 (glorotStd N N)" by simp
    have "vs ! (3 + 2 * i) = ?h ! (2 * i + 1)" using i by (simp add: vs nth_append lh)
    with h show "vs ! (3 + 2 * i) = zeros [N]" by simp
  }
qed

text \<open>
  The legacy scheme: the hidden layers and the last layer are drawn with the standard
  deviation \<open>1 / sqrt(fanIn)\<close> (their fan-in is the hidden width), the first layer
  with \<open>1 / sqrt 2\<close>; every bias is zero.
\<close>

lemma init_legacy_layers:
  fixes m g
  defines "vs \<equiv> gVariables (fst (initializeModelVariables_legacy m g))"
    and "N \<equiv> numGeneratorNeurons m" and "L \<equiv> numGeneratorLayers m"
  shows "length vs = 2 * L + 4"
    and "vs ! 0 = normal_at g (pos g) [noiseSize m, N] 0 (1 / sqrt 2)"
    and "vs ! 1 = zeros [N]"
    and "i < L \<Longrightarrow> vs ! (2 + 2 * i)
           = normal_at g (pos g + noiseSize m * N + i * (N * N)) [N, N] 0 (1 / sqrt (real N))"
    and "i < L \<Longrightarrow> vs ! (3 + 2 * i) = zeros [N]"
    and "vs ! (2 + 2 * L)
           = normal_at g (pos g + noiseSize m * N + L * (N * N)) [N, 2] 0 (1 / sqrt (real N))"
    and "vs ! (3 + 2 * L) = zeros [2]"
proof -
  let ?g1 = "snd (randomNormal g [noiseSize m, N] 0 (1 / sqrt 2))"
  let ?h = "fst (init_hidden (1 / sqrt (real N)) N L ?g1)"
  have vs: "vs = [normal_at g (pos g) [noiseSize m, N] 0 (1 / sqrt 2), zeros [N]]
      @ ?h @ [normal_at g (pos g + noiseSize m * N + L * (N * N)) [N, 2] 0 (1 / sqrt (real N)),
              zeros [2]]"
    unfolding vs_def N_def L_def by (rule init_legacy_vars)
  have lh: "length ?h = 2 * L" by (rule length_init_hidden)
  show "length vs = 2 * L + 4" by (simp add: vs lh)
  show "vs ! 0 = normal_at g (pos g) [noiseSize m, N] 0 (1 / sqrt 2)"
    by (simp add: vs)
  show "vs ! 1 = zeros [N]" by (simp add: vs)
  show "vs ! (2 + 2 * L)
           = normal_at g (pos g + noiseSize m * N + L * (N * N)) [N, 2] 0 (1 / sqrt (real N))"
    by (simp add: vs nth_append lh)
  show "vs ! (3 + 2 * L) = zeros [2]"
    by (simp add: vs nth_append lh)
  {
    assume i: "i < L"
    have g1: "draws ?g1 = draws g" "pos ?g1 = pos g + noiseSize m * N"
      by (simp_all add: randomNormal_snd)
    from init_hidden_nth [OF i, of "1 / sqrt (real N)" N ?g1]
    have h: "?h ! (2 * i)
          = normal_at g (pos g + noiseSize m * N + i * (N * N)) [N, N] 0 (1 / sqrt (real N))"
        "?h ! (2 * i + 1) = zeros [N]"
      by (simp_all add: g1 normal_at_draws [of ?g1 g])
    have "vs ! (2 + 2 * i) = ?h ! (2 * i)" using i by (simp add: vs nth_append lh)
    with h show "vs ! (2 + 2 * i)
           = normal_at g (pos g + noiseSize m * N + i * (N * N)) [N, N] 0 (1 / sqrt (real N))"
      by simp
    have "vs ! (3 + 2 * i) = ?h ! (2 * i + 1)" using i by (simp add: vs nth_append lh)
    with h show "vs ! (3 + 2 * i) = zeros [N]" by simp
  }
qed

subsection \<open>Standard deviation of the first layer, legacy scheme (C5)\<close>

text \<open>
  C5 holds for the refined scheme, for the biases and for all layers of the legacy
  scheme but the first (lemmas \<open>init_refined_layers\<close>, \<open>init_legacy_layers\<close>). The first
  weight matrix of the legacy scheme is drawn with the constant \<open>1 / sqrt 2\<close> whatever
  \<open>noiseSize\<close> is: for \<open>noiseSize = 1\<close> and draws that are all 1 its entries are
  \<open>1 / sqrt 2\<close>, not \<open>1 / sqrt(noiseSize) = 1\<close>.
\<close>

theorem initializeModelVariables_legacy_first_layer:
  "gVariables (fst (initializeModelVariables_legacy m g)) ! 0
     = normal_at g (pos g) [noiseSize m, numGeneratorNeurons m] 0 (1 / sqrt 2)
   \<and> gVariables (fst (initializeModelVariables_legacy (new_IMLELabModel 1 0 2 0 ''L2'' 0) unitDraws)) ! 0
     = \<lparr>dtype = DFloat32, shape = [1, 2], vals = [1 / sqrt 2, 1 / sqrt 2]\<rparr>
   \<and> 1 / sqrt 2 \<noteq> 1 / sqrt (real (noiseSize (new_IMLELabModel 1 0 2 0 ''L2'' 0)))"
proof (intro conjI)
  show "gVariables (fst (initializeModelVariables_legacy m g)) ! 0
     = normal_at g (pos g) [noiseSize m, numGeneratorNeurons m] 0 (1 / sqrt 2)"
    by (rule init_legacy_layers(2))
  show "gVariables (fst (initializeModelVariables_legacy (new_IMLELabModel 1 0 2 0 ''L2'' 0) unitDraws)) ! 0
     = \<lparr>dtype = DFloat32, shape = [1, 2], vals = [1 / sqrt 2, 1 / sqrt 2]\<rparr>"
    by (simp add: init_legacy_layers(2) normal_at_def new_IMLELabModel_def unitDraws_def upt_rec)
  show "1 / sqrt 2 \<noteq> 1 / sqrt (real (noiseSize (new_IMLELabModel 1 0 2 0 ''L2'' 0)))"
    by (simp add: new_IMLELabModel_def)
qed

subsection \<open>Optimizer selection (C6)\<close>

text \<open>
  C6, as stated, fails on \<open>updateOptimizer\<close> of \<open>src/unnamed/part_000\<close>: that variant
  compares with \<open>Adam\<close> only, so \<open>Adagrad\<close> and \<open>RMSProp\<close> configure plain SGD.
\<close>

theorem updateOptimizer_part000_Adagrad:
  "updateOptimizer_part000 ''Adagrad'' (1 / 100) = SGD (1 / 100)
   \<and> updateOptimizer_part000 ''Adagrad'' (1 / 100) \<noteq> Adagrad (1 / 100)
   \<and> updateOptimizer_part000 ''RMSProp'' (1 / 100) \<noteq> RMSProp (1 / 100) (9 / 10) 0 (1 / 10 ^ 8) False"
  by (simp add: updateOptimizer_part000_def)

text \<open>
  C6, amended: \<open>updateOptimizer\<close> of \<open>src/demo/imle_model.ts\<close> maps the four names to
  Adam(lr, 0.9, 0.999), Adagrad(lr), RMSProp(lr, 0.9, 0.0, 1e-8, false) and SGD(lr), and
  every other string to what \<open>SGD\<close> gives; \<open>updateOptimizer\<close> of
  \<open>src/unnamed/part_000\<close> maps \<open>Adam\<close> to Adam(lr, 0.9, 0.999) and every other string
  to SGD(lr).
\<close>

theorem updateOptimizer_cases:
  "gOptimizer (updateOptimizer m ''Adam'' lr) = Some (Adam lr (9 / 10) (999 / 1000))
   \<and> gOptimizer (updateOptimizer m ''Adagrad'' lr) = Some (Adagrad lr)
   \<and> gOptimizer (updateOptimizer m ''RMSProp'' lr) = Some (RMSProp lr (9 / 10) 0 (1 / 10 ^ 8) False)
   \<and> gOptimizer (updateOptimizer m ''SGD'' lr) = Some (SGD lr)
   \<and> (name \<noteq> ''Adam'' \<and> name \<noteq> ''Adagrad'' \<and> name \<noteq> ''RMSProp''
        \<longrightarrow> updateOptimizer m name lr = updateOptimizer m ''SGD'' lr)
   \<and> updateOptimizer_part000 ''Adam'' lr = Adam lr (9 / 10) (999 / 1000)
   \<and> (name \<noteq> ''Adam'' \<longrightarrow> updateOptimizer_part000 name lr = SGD lr)"
  by (simp add: updateOptimizer_def updateOptimizer_part000_def)

text \<open>Witness for C6 (amended): the unknown name \<open>Foo\<close> of Scenario D.\<close>

theorem updateOptimizer_cases_witness:
  "updateOptimizer scenarioB ''Foo'' (1 / 100) = updateOptimizer scenarioB ''SGD'' (1 / 100)
   \<and> updateOptimizer_part000 ''Foo'' (1 / 100) = SGD (1 / 100)"
  using updateOptimizer_cases [of scenarioB "1 / 100" "''Foo''"] by simp

subsection \<open>Loading weights (C9)\<close>

lemma weightKey_examples: "weightKey 0 = ''g-0''" "weightKey 7 = ''g-7''" "weightKey 12 = ''g-12''"
  by (simp_all add: weightKey_def digit_def)

lemma assign_Inr:
  "assign v nv = Inr t \<Longrightarrow> nv = Some t \<and> dtype t = dtype v \<and> shape t = shape v"
  by (auto simp: assign_def split: option.splits if_splits)

lemma assign_mismatch:
  "shape t \<noteq> shape v \<Longrightarrow> \<exists>e. assign v (Some t) = Inl e"
  by (simp add: assign_def)

lemma length_assign_each: "length (fst (assign_each d i vs)) = length vs"
  by (induction vs arbitrary: i) (simp_all add: split_beta split: sum.splits)

lemma assign_each_shapes:
  "map shape (fst (assign_each d i vs)) = map shape vs
   \<and> map dtype (fst (assign_each d i vs)) = map dtype vs"
proof (induction vs arbitrary: i)
  case Nil
  then show ?case by simp
next
  case (Cons v vs)
  show ?case
  proof (cases "assign v (d (weightKey i))")
    case (Inl e)
    then show ?thesis by simp
  next
    case (Inr t)
    then have "dtype t = dtype v" "shape t = shape v" by (auto dest: assign_Inr)
    with Inr Cons.IH [of "Suc i"] show ?thesis by (simp add: split_beta)
  qed
qed

lemma assign_each_success:
  "snd (assign_each d i vs) = None \<Longrightarrow> k < length vs \<Longrightarrow>
   d (weightKey (i + k)) = Some (fst (assign_each d i vs) ! k)"
proof (induction vs arbitrary: i k)
  case Nil
  then show ?case by simp
next
  case (Cons v vs)
  show ?case
  proof (cases "assign v (d (weightKey i))")
    case (Inl e)
    with Cons.prems show ?thesis by simp
  next
    case (Inr t)
    then have t: "d (weightKey i) = Some t" by (auto dest: assign_Inr)
    from Inr Cons.prems have rest: "snd (assign_each d (Suc i) vs) = None"
      by (simp add: split_beta)
    show ?thesis
    proof (cases k)
      case 0
      with Inr t show ?thesis by (simp add: split_beta)
    next
      case (Suc j)
      with Cons.prems have "j < length vs" by simp
      from Cons.IH [OF rest this] Inr Suc show ?thesis by (simp add: split_beta)
    qed
  qed
qed

lemma assign_each_mismatch:
  "k < length vs \<Longrightarrow> d (weightKey (i + k)) = Some t \<Longrightarrow> shape t \<noteq> shape (vs ! k) \<Longrightarrow>
   snd (assign_each d i vs) \<noteq> None"
proof (induction vs arbitrary: i k)
  case Nil
  then show ?case by simp
next
  case (Cons v vs)
  show ?case
  proof (cases "assign v (d (weightKey i))")
    case (Inl e)
    then show ?thesis by simp
  next
    case (Inr u)
    show ?thesis
    proof (cases k)
      case 0
      with Cons.prems have "\<exists>e. assign v (d (weightKey i)) = Inl e"
        by (simp add: assign_def)
      with Inr show ?thesis by simp
    next
      case (Suc j)
      with Cons.prems have "j < length vs" "d (weightKey (Suc i + j)) = Some t"
        "shape t \<noteq> shape (vs ! j)" by simp_all
      from Cons.IH [OF this] Inr show ?thesis by (simp add: split_beta)
    qed
  qed
qed

lemmas load_eval = loadPretrainedWeights_def decodeWeights_def assign_def weightKey_def digit_def
  tinyModel_def new_IMLELabModel_def tinyWeights_def staleWeights_def

text \<open>
  C9: when \<open>loadPretrainedWeights\<close> succeeds, variable \<open>i\<close> is the tensor stored under
  \<open>g-i\<close>; when the tensor stored under \<open>g-i\<close> for some variable \<open>i\<close> has another shape
  than that variable, the call fails; and, failing or not, no variable changes its
  shape.
\<close>

theorem loadPretrainedWeights_checked:
  "(snd (loadPretrainedWeights m loadedModel) = None
      \<longrightarrow> (\<forall>i < length (gVariables m).
             decodeWeights loadedModel (weightKey i)
               = Some (gVariables (fst (loadPretrainedWeights m loadedModel)) ! i)))
   \<and> ((\<exists>i < length (gVariables m). \<exists>t.
          decodeWeights loadedModel (weightKey i) = Some t \<and> shape t \<noteq> shape (gVariables m ! i))
      \<longrightarrow> snd (loadPretrainedWeights m loadedModel) \<noteq> None)
   \<and> map shape (gVariables (fst (loadPretrainedWeights m loadedModel))) = map shape (gVariables m)"
proof (intro conjI impI allI)
  fix i assume "snd (loadPretrainedWeights m loadedModel) = None" "i < length (gVariables m)"
  then show "decodeWeights loadedModel (weightKey i)
      = Some (gVariables (fst (loadPretrainedWeights m loadedModel)) ! i)"
    using assign_each_success [of "decodeWeights loadedModel" 0 "gVariables m" i]
    by (simp add: loadPretrainedWeights_def split_beta)
next
  assume "\<exists>i < length (gVariables m). \<exists>t.
      decodeWeights loadedModel (weightKey i) = Some t \<and> shape t \<noteq> shape (gVariables m ! i)"
  then obtain i t where "i < length (gVariables m)"
    "decodeWeights loadedModel (weightKey i) = Some t" "shape t \<noteq> shape (gVariables m ! i)"
    by blast
  then show "snd (loadPretrainedWeights m loadedModel) \<noteq> None"
    using assign_each_mismatch [of i "gVariables m" "decodeWeights loadedModel" 0 t]
    by (simp add: loadPretrainedWeights_def split_beta)
next
  show "map shape (gVariables (fst (loadPretrainedWeights m loadedModel))) = map shape (gVariables m)"
    using assign_each_shapes [of "decodeWeights loadedModel" 0 "gVariables m"]
    by (simp add: loadPretrainedWeights_def split_beta)
qed

text \<open>
  Witness for C9: a weight file that fits \<open>tinyModel\<close> is loaded; a stale one, whose
  \<open>g-4\<close> has shape \<open>[3, 2]\<close> instead of \<open>[1, 2]\<close>, is refused.
\<close>

theorem loadPretrainedWeights_checked_witness:
  "snd (loadPretrainedWeights tinyModel tinyWeights) = None
   \<and> decodeWeights tinyWeights (weightKey 4)
       = Some (gVariables (fst (loadPretrainedWeights tinyModel tinyWeights)) ! 4)
   \<and> (\<exists>i < length (gVariables tinyModel). \<exists>t.
         decodeWeights staleWeights (weightKey i) = Some t
         \<and> shape t \<noteq> shape (gVariables tinyModel ! i))
   \<and> snd (loadPretrainedWeights tinyModel staleWeights) \<noteq> None"
proof -
  have ok: "snd (loadPretrainedWeights tinyModel tinyWeights) = None"
    by (simp add: load_eval)
  have four: "4 < length (gVariables tinyModel)"
    by (simp add: tinyModel_def)
  have stale: "decodeWeights staleWeights (weightKey 4)
      = Some \<lparr>dtype = DFloat32, shape = [3, 2], vals = [6, 7, 6, 7, 6, 7]\<rparr>"
    by (simp add: load_eval)
  have shp: "shape \<lparr>dtype = DFloat32, shape = [3, 2], vals = [6, 7, 6, 7, 6, 7]\<rparr>
      \<noteq> shape (gVariables tinyModel ! 4)"
    by (simp add: tinyModel_def)
  from four stale shp have mismatch: "\<exists>i < length (gVariables tinyModel). \<exists>t.
         decodeWeights staleWeights (weightKey i) = Some t
         \<and> shape t \<noteq> shape (gVariables tinyModel ! i)" by blast
  from loadPretrainedWeights_checked [of tinyModel tinyWeights] ok four
  have a: "decodeWeights tinyWeights (weightKey 4)
       = Some (gVariables (fst (loadPretrainedWeights tinyModel tinyWeights)) ! 4)" by blast
  from loadPretrainedWeights_checked [of tinyModel staleWeights] mismatch
  have b: "snd (loadPretrainedWeights tinyModel staleWeights) \<noteq> None" by blast
  from ok a mismatch b show ?thesis by (intro conjI)
qed

section \<open>Properties of the nearest-neighbour matching\<close>

subsection \<open>The reductions\<close>

lemma argMax_less: "xs \<noteq> [] \<Longrightarrow> argMax xs < length xs"
  by (induction xs) auto

lemma argMax_ge: "j < length xs \<Longrightarrow> xs ! j \<le> xs ! argMax xs"
proof (induction xs arbitrary: j)
  case Nil
  then show ?case by simp
next
  case (Cons x xs)
  show ?case
  proof (cases j)
    case 0
    then show ?thesis by auto
  next
    case (Suc k)
    with Cons.prems have k: "k < length xs" by simp
    from Cons.IH [OF k] have "xs ! k \<le> xs ! argMax xs" .
    with Suc k show ?thesis by auto
  qed
qed

lemma argMin_less: "xs \<noteq> [] \<Longrightarrow> argMin xs < length xs"
  by (induction xs) auto

lemma argMin_le: "j < length xs \<Longrightarrow> xs ! argMin xs \<le> xs ! j"
proof (induction xs arbitrary: j)
  case Nil
  then show ?case by simp
next
  case (Cons x xs)
  show ?case
  proof (cases j)
    case 0
    then show ?thesis by auto
  next
    case (Suc k)
    with Cons.prems have k: "k < length xs" by simp
    from Cons.IH [OF k] have "xs ! argMin xs \<le> xs ! k" .
    with Suc k show ?thesis by auto
  qed
qed

lemma argMin_first: "j < argMin xs \<Longrightarrow> xs ! argMin xs < xs ! j"
proof (induction xs arbitrary: j)
  case Nil
  then show ?case by simp
next
  case (Cons x xs)
  show ?case
  proof (cases j)
    case 0
    with Cons.prems show ?thesis by (auto split: if_splits)
  next
    case (Suc k)
    with Cons.prems show ?thesis using Cons.IH [of k] by (auto split: if_splits)
  qed
qed

subsection \<open>Shapes and entries of the intermediate tensors\<close>

lemma length_min_axis0: "length (min_axis0 D n) = n"
  by (simp add: min_axis0_def)

lemma length_minDistToReal: "length (minDistToReal m rd gd) = length gd"
  by (simp add: minDistToReal_def length_min_axis0)

lemma length_keepMask: "length (keepMask m rd gd) = length gd"
  by (simp add: keepMask_def logicalOr_def greater_mask_def forceKeep_def length_minDistToReal)

lemma keepMask_nth:
  "j < length gd \<Longrightarrow>
   keepMask m rd gd ! j =
     (epsilon m < minDistToReal m rd gd ! j \<or> j = argMax (minDistToReal m rd gd))"
  by (simp add: keepMask_def logicalOr_def greater_mask_def forceKeep_def length_minDistToReal)

lemma farIdx_less: "gd \<noteq> [] \<Longrightarrow> argMax (minDistToReal m rd gd) < length gd"
proof -
  assume "gd \<noteq> []"
  then have "minDistToReal m rd gd \<noteq> []"
    using length_minDistToReal [of m rd gd] by auto
  then show ?thesis
    using argMax_less [of "minDistToReal m rd gd"] by (simp add: length_minDistToReal)
qed

lemma distances_nth:
  "i < length rd \<Longrightarrow> j < length gd \<Longrightarrow>
   distances m rd gd ! i ! j = dist_cell (distanceType m) (rd ! i) (gd ! j)"
  by (simp add: distances_def)

lemma length_distances_row: "i < length rd \<Longrightarrow> length (distances m rd gd ! i) = length gd"
  by (simp add: distances_def)

lemma maskedDistances_row:
  "i < length rd \<Longrightarrow>
   maskedDistances m rd gd ! i = mask_row (keepMask m rd gd) (distances m rd gd ! i)"
  by (simp add: maskedDistances_def distances_def)

lemma length_masked_row: "i < length rd \<Longrightarrow> length (maskedDistances m rd gd ! i) = length gd"
  by (simp add: maskedDistances_row mask_row_def length_keepMask length_distances_row)

lemma masked_nth:
  "i < length rd \<Longrightarrow> j < length gd \<Longrightarrow>
   maskedDistances m rd gd ! i ! j =
     dist_cell (distanceType m) (rd ! i) (gd ! j) + (if keepMask m rd gd ! j then 0 else large)"
  by (simp add: maskedDistances_row mask_row_def length_keepMask length_distances_row distances_nth)

lemma nearest_neighbour_nth:
  "i < length rd \<Longrightarrow> nearest_neighbour m rd gd ! i = argMin (maskedDistances m rd gd ! i)"
  by (simp add: nearest_neighbour_def maskedDistances_def distances_def)

lemma dist_cell_nonneg: "0 \<le> dist_cell dt r g"
  by (simp add: dist_cell_def sq_dist_def Let_def)

lemmas nn_eval =
  nearest_neighbour_def maskedDistances_def mask_row_def keepMask_def logicalOr_def
  forceKeep_def greater_mask_def large_def minDistToReal_def min_axis0_def distances_def
  dist_cell_def sq_dist_def new_IMLELabModel_def upt_rec power2_eq_square

subsection \<open>Entries of the distance matrix (C8)\<close>

text \<open>
  C8: every entry of the distance matrix is non-negative under \<open>L1\<close> and \<open>L2\<close>; under
  \<open>Barrier\<close> the entry is \<open>r + 1e-3 / (r + 1e-8)\<close> for the Euclidean distance \<open>r\<close> of
  the cell, and it is at least the square root of the \<open>L2\<close> entry of the same cell; a
  metric name other than \<open>L1\<close> and \<open>Barrier\<close> gives the \<open>L2\<close> matrix.
\<close>

theorem distances_entries:
  assumes "i < length realData" and "j < length generatedData"
  shows "(distanceType m = ''L1'' \<or> distanceType m = ''L2''
            \<longrightarrow> 0 \<le> distances m realData generatedData ! i ! j)
       \<and> (distanceType m = ''Barrier''
            \<longrightarrow> distances m realData generatedData ! i ! j
                  = sqrt (sq_dist (realData ! i) (generatedData ! j))
                    + (1 / 1000) / (sqrt (sq_dist (realData ! i) (generatedData ! j)) + 1 / 10 ^ 8)
                \<and> sqrt (distances (m\<lparr>distanceType := ''L2''\<rparr>) realData generatedData ! i ! j)
                    \<le> distances m realData generatedData ! i ! j)
       \<and> (distanceType m \<noteq> ''L1'' \<and> distanceType m \<noteq> ''Barrier''
            \<longrightarrow> distances m realData generatedData
                  = distances (m\<lparr>distanceType := ''L2''\<rparr>) realData generatedData)"
proof (intro conjI impI)
  show "0 \<le> distances m realData generatedData ! i ! j"
    using assms by (simp add: distances_nth dist_cell_nonneg)
next
  assume b: "distanceType m = ''Barrier''"
  show "distances m realData generatedData ! i ! j
      = sqrt (sq_dist (realData ! i) (generatedData ! j))
        + (1 / 1000) / (sqrt (sq_dist (realData ! i) (generatedData ! j)) + 1 / 10 ^ 8)"
    using assms b by (simp add: distances_nth dist_cell_def Let_def)
  have "0 \<le> sq_dist (realData ! i) (generatedData ! j)" by (simp add: sq_dist_def)
  then have "0 \<le> (1 / 1000) / (sqrt (sq_dist (realData ! i) (generatedData ! j)) + 1 / 10 ^ 8)"
    by simp
  then show "sqrt (distances (m\<lparr>distanceType := ''L2''\<rparr>) realData generatedData ! i ! j)
      \<le> distances m realData generatedData ! i ! j"
    using assms b by (simp add: distances_nth dist_cell_def Let_def)
next
  assume "distanceType m \<noteq> ''L1'' \<and> distanceType m \<noteq> ''Barrier''"
  then show "distances m realData generatedData
      = distances (m\<lparr>distanceType := ''L2''\<rparr>) realData generatedData"
    by (simp add: distances_def dist_cell_def)
qed

text \<open>
  Witness for C8: the cell between \<open>(0,0)\<close> and \<open>(3,4)\<close> under \<open>L1\<close>, \<open>L2\<close>,
  \<open>Barrier\<close> and the unknown name \<open>Foo\<close>.
\<close>

theorem distances_entries_witness:
  "(0::nat) < length ([(0, 0)] :: point list) \<and> (0::nat) < length ([(3, 4)] :: point list)
   \<and> 0 \<le> distances (new_IMLELabModel 2 0 4 0 ''L1'' 0) [(0, 0)] [(3, 4)] ! 0 ! 0
   \<and> 0 \<le> distances (new_IMLELabModel 2 0 4 0 ''L2'' 0) [(0, 0)] [(3, 4)] ! 0 ! 0
   \<and> sqrt (distances ((new_IMLELabModel 2 0 4 0 ''Barrier'' 0)\<lparr>distanceType := ''L2''\<rparr>)
              [(0, 0)] [(3, 4)] ! 0 ! 0)
       \<le> distances (new_IMLELabModel 2 0 4 0 ''Barrier'' 0) [(0, 0)] [(3, 4)] ! 0 ! 0
   \<and> distances (new_IMLELabModel 2 0 4 0 ''Foo'' 0) [(0, 0)] [(3, 4)]
       = distances ((new_IMLELabModel 2 0 4 0 ''Foo'' 0)\<lparr>distanceType := ''L2''\<rparr>) [(0, 0)] [(3, 4)]
   \<and> distances (new_IMLELabModel 2 0 4 0 ''L2'' 0) [(0, 0)] [(3, 4)] = [[25]]"
proof -
  have i: "(0::nat) < length ([(0, 0)] :: point list)" by simp
  have j: "(0::nat) < length ([(3, 4)] :: point list)" by simp
  have dt: "distanceType (new_IMLELabModel 2 0 4 0 dt 0) = dt" for dt
    by (simp add: new_IMLELabModel_def)
  from distances_entries [OF i j, of "new_IMLELabModel 2 0 4 0 ''L1'' 0", THEN conjunct1]
  have l1: "0 \<le> distances (new_IMLELabModel 2 0 4 0 ''L1'' 0) [(0, 0)] [(3, 4)] ! 0 ! 0"
    by (simp add: dt)
  from distances_entries [OF i j, of "new_IMLELabModel 2 0 4 0 ''L2'' 0", THEN conjunct1]
  have l2: "0 \<le> distances (new_IMLELabModel 2 0 4 0 ''L2'' 0) [(0, 0)] [(3, 4)] ! 0 ! 0"
    by (simp add: dt)
  from distances_entries
         [OF i j, of "new_IMLELabModel 2 0 4 0 ''Barrier'' 0", THEN conjunct2, THEN conjunct1]
  have ba: "sqrt (distances ((new_IMLELabModel 2 0 4 0 ''Barrier'' 0)\<lparr>distanceType := ''L2''\<rparr>)
              [(0, 0)] [(3, 4)] ! 0 ! 0)
       \<le> distances (new_IMLELabModel 2 0 4 0 ''Barrier'' 0) [(0, 0)] [(3, 4)] ! 0 ! 0"
    by (simp add: dt)
  from distances_entries
         [OF i j, of "new_IMLELabModel 2 0 4 0 ''Foo'' 0", THEN conjunct2, THEN conjunct2]
  have foo: "distances (new_IMLELabModel 2 0 4 0 ''Foo'' 0) [(0, 0)] [(3, 4)]
       = distances ((new_IMLELabModel 2 0 4 0 ''Foo'' 0)\<lparr>distanceType := ''L2''\<rparr>) [(0, 0)] [(3, 4)]"
    by (simp add: dt)
  have val: "distances (new_IMLELabModel 2 0 4 0 ''L2'' 0) [(0, 0)] [(3, 4)] = [[25]]"
    by (simp add: distances_def dist_cell_def sq_dist_def new_IMLELabModel_def)
  from i j l1 l2 ba foo val show ?thesis by (intro conjI)
qed

subsection \<open>Matched indices (C1)\<close>

text \<open>
  C1, as stated, fails: the rejected columns are not removed but raised by the finite
  constant \<open>1e9\<close>, so a rejected candidate still wins a row whose kept candidates are
  farther than that. With real points \<open>(0,0)\<close>, \<open>(100000,0)\<close> and candidates \<open>(0,0)\<close>,
  \<open>(100000,1)\<close>, candidate 1 passes the unforced filter, candidate 0 is rejected, and the
  first real point is nevertheless matched to candidate 0.
\<close>

theorem nearest_neighbour_rejected_match:
  "epsilon farModel < minDistToReal farModel [(0, 0), (100000, 0)] [(0, 0), (100000, 1)] ! 1
   \<and> nearest_neighbour farModel [(0, 0), (100000, 0)] [(0, 0), (100000, 1)] ! 0 = 0
   \<and> \<not> keepMask farModel [(0, 0), (100000, 0)] [(0, 0), (100000, 1)] ! 0"
  by (simp add: nn_eval farModel_def)

text \<open>
  C1, amended: for every real point \<open>i\<close> and every non-empty pool the matched index
  lies in \<open>[0, P)\<close>, attains the minimum of the masked row and is the lowest index that
  does. Its \<open>KeepMask\<close> entry is true whenever some candidate with a true \<open>KeepMask\<close>
  entry is closer to real point \<open>i\<close> than every rejected candidate's distance plus
  \<open>1e9\<close>; in particular whenever some kept candidate is at a distance below \<open>1e9\<close>
  from real point \<open>i\<close>.
\<close>

theorem nearest_neighbour_match_index:
  assumes i: "i < length realData" and ne: "generatedData \<noteq> []"
  shows "nearest_neighbour m realData generatedData ! i < length generatedData
       \<and> (\<forall>j < length generatedData.
             maskedDistances m realData generatedData ! i ! (nearest_neighbour m realData generatedData ! i)
               \<le> maskedDistances m realData generatedData ! i ! j
           \<and> (maskedDistances m realData generatedData ! i ! j
                = maskedDistances m realData generatedData ! i ! (nearest_neighbour m realData generatedData ! i)
              \<longrightarrow> nearest_neighbour m realData generatedData ! i \<le> j))
       \<and> ((\<exists>f < length generatedData.
              keepMask m realData generatedData ! f
            \<and> (\<forall>r < length generatedData.
                  \<not> keepMask m realData generatedData ! r
                  \<longrightarrow> distances m realData generatedData ! i ! f
                        < distances m realData generatedData ! i ! r + large))
            \<longrightarrow> keepMask m realData generatedData ! (nearest_neighbour m realData generatedData ! i))
       \<and> ((\<exists>f < length generatedData.
              keepMask m realData generatedData ! f
            \<and> distances m realData generatedData ! i ! f < large)
            \<longrightarrow> keepMask m realData generatedData ! (nearest_neighbour m realData generatedData ! i))"
proof -
  let ?row = "maskedDistances m realData generatedData ! i"
  let ?D = "distances m realData generatedData ! i"
  let ?keep = "keepMask m realData generatedData"
  let ?k = "nearest_neighbour m realData generatedData ! i"
  have k_def: "?k = argMin ?row" using i by (rule nearest_neighbour_nth)
  have len: "length ?row = length generatedData" using i by (rule length_masked_row)
  with ne have "?row \<noteq> []" by auto
  then have k: "?k < length generatedData" using argMin_less [of ?row] by (simp add: k_def len)
  have least: "?row ! ?k \<le> ?row ! j" if "j < length generatedData" for j
    using that argMin_le [of j ?row] by (simp add: k_def len)
  have first: "?k \<le> j" if "j < length generatedData" "?row ! j = ?row ! ?k" for j
  proof (rule ccontr)
    assume "\<not> ?k \<le> j"
    then have "j < argMin ?row" by (simp add: k_def)
    then have "?row ! argMin ?row < ?row ! j" by (rule argMin_first)
    with that(2) show False by (simp add: k_def)
  qed
  have row_nth: "?row ! j = ?D ! j + (if ?keep ! j then 0 else large)"
    if "j < length generatedData" for j
    using i that by (simp add: masked_nth distances_nth)
  have nonneg: "0 \<le> ?D ! j" if "j < length generatedData" for j
    using i that by (simp add: distances_nth dist_cell_nonneg)
  have kept: "?keep ! ?k"
    if f: "f < length generatedData" "?keep ! f"
      and near: "\<And>r. r < length generatedData \<Longrightarrow> \<not> ?keep ! r \<Longrightarrow> ?D ! f < ?D ! r + large"
    for f
  proof (rule ccontr)
    assume rejected: "\<not> ?keep ! ?k"
    from near [OF k rejected] have "?D ! f < ?D ! ?k + large" .
    moreover have "?row ! f = ?D ! f" using f by (simp add: row_nth)
    moreover have "?row ! ?k = ?D ! ?k + large" using k rejected by (simp add: row_nth)
    moreover have "?row ! ?k \<le> ?row ! f" using f(1) by (rule least)
    ultimately show False by simp
  qed
  have kept_small: "?keep ! ?k"
    if f: "f < length generatedData" "?keep ! f" "?D ! f < large" for f
  proof (rule kept [OF f(1,2)])
    fix r assume "r < length generatedData"
    then have "0 \<le> ?D ! r" by (rule nonneg)
    with f(3) show "?D ! f < ?D ! r + large" by simp
  qed
  from k least first kept kept_small show ?thesis by blast
qed

text \<open>
  Witness for C1 (amended): Scenario B with two rejected candidates, where the first
  real point is matched to the kept candidate 2; a pool with a candidate farther than
  \<open>1e9\<close> and a kept one nearby; and a real point midway between two candidates, which
  tie on the masked row, where the lower index is returned.
\<close>

theorem nearest_neighbour_match_index_witness:
  "(0::nat) < length ([(0, 0), (1, 1)] :: point list)
   \<and> ([(0, 0), (1, 1), (1 / 2, 1 / 2)] :: point list) \<noteq> []
   \<and> keepMask farModel [(0, 0), (1, 1)] [(0, 0), (1, 1), (1 / 2, 1 / 2)] = [False, False, True]
   \<and> distances farModel [(0, 0), (1, 1)] [(0, 0), (1, 1), (1 / 2, 1 / 2)] ! 0 ! 2 < large
   \<and> nearest_neighbour farModel [(0, 0), (1, 1)] [(0, 0), (1, 1), (1 / 2, 1 / 2)] ! 0 = 2
   \<and> keepMask farModel [(0, 0), (1, 1)] [(0, 0), (1, 1), (1 / 2, 1 / 2)]
         ! (nearest_neighbour farModel [(0, 0), (1, 1)] [(0, 0), (1, 1), (1 / 2, 1 / 2)] ! 0)
   \<and> keepMask farModel [(0, 0)] [(1, 0), (100000, 0)] = [True, True]
   \<and> distances farModel [(0, 0)] [(1, 0), (100000, 0)] = [[1, 10000000000]]
   \<and> keepMask farModel [(0, 0)] [(1, 0), (100000, 0)]
         ! (nearest_neighbour farModel [(0, 0)] [(1, 0), (100000, 0)] ! 0)
   \<and> maskedDistances farModel [(1 / 2, 1 / 2)] [(0, 0), (1, 1)] = [[1 / 2, 1 / 2]]
   \<and> nearest_neighbour farModel [(1 / 2, 1 / 2)] [(0, 0), (1, 1)] ! 0 = 0"
proof -
  let ?A = "[(0, 0), (1, 1)] :: point list"
  let ?G = "[(0, 0), (1, 1), (1 / 2, 1 / 2)] :: point list"
  let ?H = "[(1, 0), (100000, 0)] :: point list"
  have i: "(0::nat) < length ?A" by simp
  have ne: "?G \<noteq> []" by simp
  have keepG: "keepMask farModel ?A ?G = [False, False, True]"
    by (simp add: nn_eval farModel_def)
  have nearG: "distances farModel ?A ?G ! 0 ! 2 < large"
    by (simp add: nn_eval farModel_def)
  have nnG: "nearest_neighbour farModel ?A ?G ! 0 = 2"
    by (simp add: nn_eval farModel_def)
  have "\<exists>f < length ?G. keepMask farModel ?A ?G ! f \<and> distances farModel ?A ?G ! 0 ! f < large"
    using nearG by (intro exI [of _ 2]) (simp add: keepG)
  with nearest_neighbour_match_index [OF i ne, of farModel]
  have keptG: "keepMask farModel ?A ?G ! (nearest_neighbour farModel ?A ?G ! 0)" by blast
  have i': "(0::nat) < length ([(0, 0)] :: point list)" by simp
  have ne': "?H \<noteq> []" by simp
  have keepH: "keepMask farModel [(0, 0)] ?H = [True, True]"
    by (simp add: nn_eval farModel_def)
  have distH: "distances farModel [(0, 0)] ?H = [[1, 10000000000]]"
    by (simp add: nn_eval farModel_def)
  have "\<exists>f < length ?H. keepMask farModel [(0, 0)] ?H ! f
          \<and> distances farModel [(0, 0)] ?H ! 0 ! f < large"
    by (intro exI [of _ 0]) (simp add: keepH distH large_def)
  with nearest_neighbour_match_index [OF i' ne', of farModel]
  have keptH: "keepMask farModel [(0, 0)] ?H ! (nearest_neighbour farModel [(0, 0)] ?H ! 0)"
    by blast
  have tie: "maskedDistances farModel [(1 / 2, 1 / 2)] [(0, 0), (1, 1)] = [[1 / 2, 1 / 2]]"
    by (simp add: nn_eval farModel_def)
  have low: "nearest_neighbour farModel [(1 / 2, 1 / 2)] [(0, 0), (1, 1)] ! 0 = 0"
    by (simp add: nn_eval farModel_def)
  from i ne keepG nearG nnG keptG keepH distH keptH tie low show ?thesis by (intro conjI)
qed

subsection \<open>The keep mask is never empty (C2)\<close>

text \<open>
  C2: for a non-empty candidate pool, whatever the real batch and the threshold
  \<open>epsilon\<close> (non-negative or not), the keep mask has a true entry: the one at the
  \<open>argMax\<close> of \<open>minDistToReal\<close>.
\<close>

theorem keepMask_has_survivor:
  assumes "generatedData \<noteq> []"
  shows "\<exists>j < length generatedData. keepMask m realData generatedData ! j"
proof -
  let ?f = "argMax (minDistToReal m realData generatedData)"
  have "?f < length generatedData" using assms by (rule farIdx_less)
  moreover from this have "keepMask m realData generatedData ! ?f" by (simp add: keepMask_nth)
  ultimately show ?thesis by blast
qed

text \<open>
  Witness for C2: both candidates coincide with a real point, the filter rejects both,
  and the mask still has a true entry.
\<close>

theorem keepMask_has_survivor_witness:
  "([(0, 0), (1, 1)] :: point list) \<noteq> []
   \<and> greater_mask (minDistToReal scenarioB [(0, 0), (1, 1)] [(0, 0), (1, 1)]) (epsilon scenarioB)
       = [False, False]
   \<and> (\<exists>j < length ([(0, 0), (1, 1)] :: point list).
         keepMask scenarioB [(0, 0), (1, 1)] [(0, 0), (1, 1)] ! j)"
proof -
  have ne: "([(0, 0), (1, 1)] :: point list) \<noteq> []" by simp
  have rejected: "greater_mask (minDistToReal scenarioB [(0, 0), (1, 1)] [(0, 0), (1, 1)])
      (epsilon scenarioB) = [False, False]"
    by (simp add: nn_eval scenarioB_def)
  have kept: "\<exists>j < length ([(0, 0), (1, 1)] :: point list).
      keepMask scenarioB [(0, 0), (1, 1)] [(0, 0), (1, 1)] ! j"
    by (rule keepMask_has_survivor [OF ne])
  show ?thesis by (rule conjI [OF ne conjI [OF rejected kept]])
qed

subsection \<open>Scenario B (C3)\<close>

text \<open>
  C3: real points \<open>(0,0)\<close>, \<open>(1,1)\<close>, candidates \<open>(0,0)\<close>, \<open>(1,1)\<close>, \<open>(0.5,0.5)\<close>,
  \<open>epsilon = 0.1\<close>, squared L2. The least distances to a real point are \<open>0, 0, 0.5\<close>;
  the filter rejects candidates 0 and 1, the force-keep indicator selects candidate 2,
  so the keep mask holds candidate 2 only, and both real points are matched to it.
  The scenario sets the threshold \<open>epsilon\<close>, a constructor argument of the classes of
  \<open>imle_model.ts\<close>; the class of \<open>src/unnamed/part_000\<close> has neither the threshold nor
  the filter.
\<close>

theorem scenarioB_match_indices:
  "minDistToReal scenarioB [(0, 0), (1, 1)] [(0, 0), (1, 1), (1 / 2, 1 / 2)] = [0, 0, 1 / 2]
   \<and> greater_mask (minDistToReal scenarioB [(0, 0), (1, 1)] [(0, 0), (1, 1), (1 / 2, 1 / 2)])
        (epsilon scenarioB) = [False, False, True]
   \<and> forceKeep (minDistToReal scenarioB [(0, 0), (1, 1)] [(0, 0), (1, 1), (1 / 2, 1 / 2)]) 3
       = [False, False, True]
   \<and> keepMask scenarioB [(0, 0), (1, 1)] [(0, 0), (1, 1), (1 / 2, 1 / 2)] = [False, False, True]
   \<and> nearest_neighbour scenarioB [(0, 0), (1, 1)] [(0, 0), (1, 1), (1 / 2, 1 / 2)] = [2, 2]"
  by (simp add: nn_eval scenarioB_def)

subsection \<open>The force-keep changes the mask only when all are rejected (C10)\<close>

text \<open>
  C10: if some candidate \<open>j\<close> passes the filter \<open>minDistToReal[j] > epsilon\<close>, then the
  \<open>argMax\<close> of \<open>minDistToReal\<close> passes it too, and the keep mask after the logical OR
  with the force-keep indicator is the unforced mask. By contraposition the OR changes
  the mask only when every candidate was rejected.
\<close>

theorem forceKeep_noop_when_some_pass:
  assumes "j < length generatedData"
    and "epsilon m < minDistToReal m realData generatedData ! j"
  shows "epsilon m < minDistToReal m realData generatedData
                       ! argMax (minDistToReal m realData generatedData)
       \<and> keepMask m realData generatedData
           = greater_mask (minDistToReal m realData generatedData) (epsilon m)"
proof -
  let ?md = "minDistToReal m realData generatedData"
  have len: "length ?md = length generatedData" by (rule length_minDistToReal)
  have "?md ! j \<le> ?md ! argMax ?md" using assms(1) len by (simp add: argMax_ge)
  with assms(2) have far: "epsilon m < ?md ! argMax ?md" by simp
  have "keepMask m realData generatedData = greater_mask ?md (epsilon m)"
  proof (rule nth_equalityI)
    show "length (keepMask m realData generatedData) = length (greater_mask ?md (epsilon m))"
      by (simp add: length_keepMask greater_mask_def len)
  next
    fix i assume "i < length (keepMask m realData generatedData)"
    then have i: "i < length generatedData" by (simp add: length_keepMask)
    then show "keepMask m realData generatedData ! i = greater_mask ?md (epsilon m) ! i"
      using far by (auto simp: keepMask_nth greater_mask_def len)
  qed
  with far show ?thesis by simp
qed

text \<open>Witness for C10: Scenario B, where candidate 2 passes the filter.\<close>

theorem forceKeep_noop_witness:
  "(2::nat) < length ([(0, 0), (1, 1), (1 / 2, 1 / 2)] :: point list)
   \<and> epsilon scenarioB
       < minDistToReal scenarioB [(0, 0), (1, 1)] [(0, 0), (1, 1), (1 / 2, 1 / 2)] ! 2
   \<and> keepMask scenarioB [(0, 0), (1, 1)] [(0, 0), (1, 1), (1 / 2, 1 / 2)]
       = greater_mask (minDistToReal scenarioB [(0, 0), (1, 1)] [(0, 0), (1, 1), (1 / 2, 1 / 2)])
           (epsilon scenarioB)"
proof -
  have j: "(2::nat) < length ([(0, 0), (1, 1), (1 / 2, 1 / 2)] :: point list)" by simp
  have pass: "epsilon scenarioB
       < minDistToReal scenarioB [(0, 0), (1, 1)] [(0, 0), (1, 1), (1 / 2, 1 / 2)] ! 2"
    by (simp add: nn_eval scenarioB_def)
  from forceKeep_noop_when_some_pass [OF j pass]
  have "keepMask scenarioB [(0, 0), (1, 1)] [(0, 0), (1, 1), (1 / 2, 1 / 2)]
       = greater_mask (minDistToReal scenarioB [(0, 0), (1, 1)] [(0, 0), (1, 1), (1 / 2, 1 / 2)])
           (epsilon scenarioB)" by (rule conjunct2)
  with j pass show ?thesis by (intro conjI)
qed

section \<open>Properties of the training iteration\<close>

subsection \<open>Sequencing of fallible steps\<close>

lemma bindE_simps [simp]: "bindE (Inr x) f = f x" "bindE (Inl e) f = Inl e"
  by (simp_all add: bindE_def)

lemma bindE_assoc: "bindE (bindE r f) h = bindE r (\<lambda>x. bindE (f x) h)"
  by (cases r) simp_all

lemma imleLoss_snd: "snd (imleLoss m g rb mn) = g\<lparr>pos := pos g + prod_list (shape mn)\<rparr>"
  by (simp add: imleLoss_def randomNormal_def Let_def)

subsection \<open>The loop of src/unnamed/part_001\<close>

text \<open>
  A pass of the loop that returns has found an optimizer and the matched latents, and
  leaves the state that \<open>minimize\<close> gives for the loss \<open>imleLoss\<close> on the kept batch and
  the matched latents, with the random generator moved past the perturbation it drew.
\<close>

lemma optimize_loop_snoc:
  "optimize_loop mz rb lp idx (Suc n) st
     = bindE (optimize_loop mz rb lp idx n st) (optimize_step mz rb lp idx)"
proof (induction n arbitrary: st)
  case 0
  show ?case by (cases "optimize_step mz rb lp idx st") simp_all
next
  case (Suc n)
  have ih: "optimize_loop mz rb lp idx (Suc n)
      = (\<lambda>s. bindE (optimize_loop mz rb lp idx n s) (optimize_step mz rb lp idx))"
    by (rule ext) (rule Suc.IH)
  have "optimize_loop mz rb lp idx (Suc (Suc n)) st
      = bindE (optimize_step mz rb lp idx st) (optimize_loop mz rb lp idx (Suc n))" by simp
  also have "\<dots> = bindE (optimize_step mz rb lp idx st)
      (\<lambda>s. bindE (optimize_loop mz rb lp idx n s) (optimize_step mz rb lp idx))"
    by (simp only: ih)
  also have "\<dots> = bindE (optimize_loop mz rb lp idx (Suc n) st) (optimize_step mz rb lp idx)"
    by (simp add: bindE_assoc)
  finally show ?case .
qed

lemma optimize_loop_prefix:
  "optimize_loop mz rb lp idx n st = Inr s' \<Longrightarrow> j \<le> n \<Longrightarrow>
   \<exists>sj. optimize_loop mz rb lp idx j st = Inr sj"
proof (induction n arbitrary: s')
  case 0
  then show ?case by simp
next
  case (Suc n)
  show ?case
  proof (cases "j = Suc n")
    case True
    with Suc.prems show ?thesis by blast
  next
    case False
    with Suc.prems have j: "j \<le> n" by simp
    from Suc.prems(1) obtain s where "optimize_loop mz rb lp idx n st = Inr s"
      by (cases "optimize_loop mz rb lp idx n st") (simp_all add: optimize_loop_snoc del: optimize_loop.simps)
    from Suc.IH [OF this j] show ?thesis .
  qed
qed

lemma optimize_step_Inr:
  assumes "optimize_step mz rb lp idx st = Inr s1"
  shows "\<exists>opt mn. gOptimizer (model st) = Some opt \<and> gather lp idx = Inr mn
     \<and> s1 = st\<lparr>model := (model st)\<lparr>gVariables :=
                   fst (mz opt (optimizerSlots st)
                          (\<lambda>vs. fst (imleLoss ((model st)\<lparr>gVariables := vs\<rparr>) (tfRandom st) rb mn))
                          (gVariables (model st)))\<rparr>,
               optimizerSlots :=
                   snd (mz opt (optimizerSlots st)
                          (\<lambda>vs. fst (imleLoss ((model st)\<lparr>gVariables := vs\<rparr>) (tfRandom st) rb mn))
                          (gVariables (model st))),
               tfRandom := (tfRandom st)\<lparr>pos := pos (tfRandom st) + prod_list (shape mn)\<rparr>\<rparr>"
proof -
  from assms obtain opt mn cost g1 vs' slots' where
    o: "gOptimizer (model st) = Some opt" and g: "gather lp idx = Inr mn"
    and l: "imleLoss (model st) (tfRandom st) rb mn = (Inr cost, g1)"
    and m: "mz opt (optimizerSlots st)
              (\<lambda>vs. fst (imleLoss ((model st)\<lparr>gVariables := vs\<rparr>) (tfRandom st) rb mn))
              (gVariables (model st)) = (vs', slots')"
    and s1: "s1 = st\<lparr>model := (model st)\<lparr>gVariables := vs'\<rparr>, optimizerSlots := slots',
                     tfRandom := g1\<rparr>"
    by (auto simp: optimize_step_def split: option.splits sum.splits prod.splits)
  from l have "g1 = snd (imleLoss (model st) (tfRandom st) rb mn)" by simp
  then have "g1 = (tfRandom st)\<lparr>pos := pos (tfRandom st) + prod_list (shape mn)\<rparr>"
    by (simp add: imleLoss_snd)
  with o g m s1 show ?thesis by simp
qed

lemma optimize_loop_inv:
  "optimize_loop mz rb lp idx j st = Inr sj \<Longrightarrow> gather lp idx = Inr mn \<Longrightarrow>
   tfRandom sj = (tfRandom st)\<lparr>pos := pos (tfRandom st) + j * prod_list (shape mn)\<rparr>
   \<and> (\<forall>vs. (model sj)\<lparr>gVariables := vs\<rparr> = (model st)\<lparr>gVariables := vs\<rparr>)"
proof (induction j arbitrary: st)
  case 0
  then show ?case by simp
next
  case (Suc j)
  from Suc.prems(1) obtain s1 where
    s: "optimize_step mz rb lp idx st = Inr s1" and l: "optimize_loop mz rb lp idx j s1 = Inr sj"
    by (cases "optimize_step mz rb lp idx st") simp_all
  from optimize_step_Inr [OF s] Suc.prems(2)
  have r: "tfRandom s1 = (tfRandom st)\<lparr>pos := pos (tfRandom st) + prod_list (shape mn)\<rparr>"
    and m: "\<forall>vs. (model s1)\<lparr>gVariables := vs\<rparr> = (model st)\<lparr>gVariables := vs\<rparr>"
    by auto
  from Suc.IH [OF l Suc.prems(2)] r m show ?case by (simp add: algebra_simps)
qed


lemma prepare_iteration_Inr:
  assumes "prepare_iteration st = Inr (rb, lp, idx, st1)"
  shows "rb = batchAt (trueSampleProvider st) (calls (trueSampleProvider st))"
    and "fst (getLatentPoolFrom (noiseProvider st) (sampleFactor st)) = Inr lp"
    and "\<exists>genPool. generator (model st) lp = Inr genPool
           \<and> nearest_neighbour_t (model st) rb genPool = Inr idx"
    and "\<exists>mn. gather lp idx = Inr mn
           \<and> tfRandom st1 = (tfRandom st)\<lparr>pos := pos (tfRandom st) + prod_list (shape mn)\<rparr>"
    and "model st1 = model st"
proof -
  let ?rb = "batchAt (trueSampleProvider st) (calls (trueSampleProvider st))"
  from assms obtain tp np genPool mn gCost g1 u where
    rb: "rb = ?rb"
    and p: "getLatentPoolFrom (noiseProvider st) (sampleFactor st) = (Inr lp, np)"
    and gen: "generator (model st) lp = Inr genPool"
    and nn: "nearest_neighbour_t (model st) rb genPool = Inr idx"
    and ga: "gather lp idx = Inr mn"
    and lo: "imleLoss (model st) (tfRandom st) rb mn = (Inr gCost, g1)"
    and st1: "st1 = st\<lparr>iterationCount := Suc (iterationCount st), trueSampleProvider := tp,
                       noiseProvider := np, tfRandom := g1\<rparr>"
    by (auto simp: prepare_iteration_def getNextCopy_def split: sum.splits prod.splits)
  from lo have "g1 = snd (imleLoss (model st) (tfRandom st) rb mn)" by simp
  then have g1: "g1 = (tfRandom st)\<lparr>pos := pos (tfRandom st) + prod_list (shape mn)\<rparr>"
    by (simp add: imleLoss_snd)
  show "rb = ?rb" by (rule rb)
  show "fst (getLatentPoolFrom (noiseProvider st) (sampleFactor st)) = Inr lp" by (simp add: p)
  show "\<exists>genPool. generator (model st) lp = Inr genPool
           \<and> nearest_neighbour_t (model st) rb genPool = Inr idx" using gen nn by blast
  show "\<exists>mn. gather lp idx = Inr mn
           \<and> tfRandom st1 = (tfRandom st)\<lparr>pos := pos (tfRandom st) + prod_list (shape mn)\<rparr>"
    using ga g1 st1 by simp
  show "model st1 = model st" by (simp add: st1)
qed

lemma iterateTraining_part001_calls:
  assumes "isPlaying st" and "iterateTraining_part001 mz st = Inr st'"
  shows "\<exists>realBatch latents genPool nnIdx mn st1.
           prepare_iteration st = Inr (realBatch, latents, nnIdx, st1)
         \<and> realBatch = batchAt (trueSampleProvider st) (calls (trueSampleProvider st))
         \<and> fst (getLatentPoolFrom (noiseProvider st) (sampleFactor st)) = Inr latents
         \<and> generator (model st) latents = Inr genPool
         \<and> nearest_neighbour_t (model st) realBatch genPool = Inr nnIdx
         \<and> gather latents nnIdx = Inr mn
         \<and> optimize_loop mz realBatch latents nnIdx (kGSteps st) st1 = Inr st'
         \<and> (\<forall>j < kGSteps st. \<exists>opt sj.
               optimize_loop mz realBatch latents nnIdx j st1 = Inr sj
             \<and> gOptimizer (model sj) = Some opt
             \<and> optimize_loop mz realBatch latents nnIdx (Suc j) st1
                 = Inr (sj\<lparr>model := (model sj)\<lparr>gVariables :=
                             fst (mz opt (optimizerSlots sj)
                                    (\<lambda>vs. fst (imleLoss ((model st)\<lparr>gVariables := vs\<rparr>)
                                                  ((tfRandom st)\<lparr>pos := pos (tfRandom st)
                                                      + (j + 1) * prod_list (shape mn)\<rparr>)
                                                  realBatch mn))
                                    (gVariables (model sj)))\<rparr>,
                           optimizerSlots :=
                             snd (mz opt (optimizerSlots sj)
                                    (\<lambda>vs. fst (imleLoss ((model st)\<lparr>gVariables := vs\<rparr>)
                                                  ((tfRandom st)\<lparr>pos := pos (tfRandom st)
                                                      + (j + 1) * prod_list (shape mn)\<rparr>)
                                                  realBatch mn))
                                    (gVariables (model sj))),
                           tfRandom := (tfRandom st)\<lparr>pos := pos (tfRandom st)
                                           + (j + 2) * prod_list (shape mn)\<rparr>\<rparr>))"
proof -
  from assms obtain rb lp idx st1 where
    prep: "prepare_iteration st = Inr (rb, lp, idx, st1)"
    and loop: "optimize_loop mz rb lp idx (kGSteps st) st1 = Inr st'"
    by (auto simp: iterateTraining_part001_def split: sum.splits prod.splits)
  from prepare_iteration_Inr [OF prep] obtain genPool mn where
    rb: "rb = batchAt (trueSampleProvider st) (calls (trueSampleProvider st))"
    and pool: "fst (getLatentPoolFrom (noiseProvider st) (sampleFactor st)) = Inr lp"
    and gen: "generator (model st) lp = Inr genPool"
    and nn: "nearest_neighbour_t (model st) rb genPool = Inr idx"
    and ga: "gather lp idx = Inr mn"
    and r1: "tfRandom st1 = (tfRandom st)\<lparr>pos := pos (tfRandom st) + prod_list (shape mn)\<rparr>"
    and m1: "model st1 = model st"
    by blast
  have steps: "\<exists>opt sj.
               optimize_loop mz rb lp idx j st1 = Inr sj
             \<and> gOptimizer (model sj) = Some opt
             \<and> optimize_loop mz rb lp idx (Suc j) st1
                 = Inr (sj\<lparr>model := (model sj)\<lparr>gVariables :=
                             fst (mz opt (optimizerSlots sj)
                                    (\<lambda>vs. fst (imleLoss ((model st)\<lparr>gVariables := vs\<rparr>)
                                                  ((tfRandom st)\<lparr>pos := pos (tfRandom st)
                                                      + (j + 1) * prod_list (shape mn)\<rparr>)
                                                  rb mn))
                                    (gVariables (model sj)))\<rparr>,
                           optimizerSlots :=
                             snd (mz opt (optimizerSlots sj)
                                    (\<lambda>vs. fst (imleLoss ((model st)\<lparr>gVariables := vs\<rparr>)
                                                  ((tfRandom st)\<lparr>pos := pos (tfRandom st)
                                                      + (j + 1) * prod_list (shape mn)\<rparr>)
                                                  rb mn))
                                    (gVariables (model sj))),
                           tfRandom := (tfRandom st)\<lparr>pos := pos (tfRandom st)
                                           + (j + 2) * prod_list (shape mn)\<rparr>\<rparr>)"
    if j: "j < kGSteps st" for j
  proof -
    from j have "Suc j \<le> kGSteps st" by simp
    from optimize_loop_prefix [OF loop this] obtain sj1 where
      sj1: "optimize_loop mz rb lp idx (Suc j) st1 = Inr sj1" by blast
    then obtain sj where sj: "optimize_loop mz rb lp idx j st1 = Inr sj"
      and step: "optimize_step mz rb lp idx sj = Inr sj1"
      by (cases "optimize_loop mz rb lp idx j st1")
         (simp_all add: optimize_loop_snoc del: optimize_loop.simps)
    from optimize_loop_inv [OF sj ga] r1 m1
    have rj: "tfRandom sj = (tfRandom st)\<lparr>pos := pos (tfRandom st) + (j + 1) * prod_list (shape mn)\<rparr>"
      and mj: "\<And>vs. (model sj)\<lparr>gVariables := vs\<rparr> = (model st)\<lparr>gVariables := vs\<rparr>"
      by (simp_all add: algebra_simps)
    from optimize_step_Inr [OF step] ga obtain opt where
      o: "gOptimizer (model sj) = Some opt"
      and e: "sj1 = sj\<lparr>model := (model sj)\<lparr>gVariables :=
                   fst (mz opt (optimizerSlots sj)
                          (\<lambda>vs. fst (imleLoss ((model sj)\<lparr>gVariables := vs\<rparr>) (tfRandom sj) rb mn))
                          (gVariables (model sj)))\<rparr>,
               optimizerSlots :=
                   snd (mz opt (optimizerSlots sj)
                          (\<lambda>vs. fst (imleLoss ((model sj)\<lparr>gVariables := vs\<rparr>) (tfRandom sj) rb mn))
                          (gVariables (model sj))),
               tfRandom := (tfRandom sj)\<lparr>pos := pos (tfRandom sj) + prod_list (shape mn)\<rparr>\<rparr>"
      by auto
    have r2: "(tfRandom sj)\<lparr>pos := pos (tfRandom sj) + prod_list (shape mn)\<rparr>
        = (tfRandom st)\<lparr>pos := pos (tfRandom st) + (j + 2) * prod_list (shape mn)\<rparr>"
      by (simp add: rj algebra_simps)
    have lam: "(\<lambda>vs. fst (imleLoss ((model sj)\<lparr>gVariables := vs\<rparr>) (tfRandom sj) rb mn))
        = (\<lambda>vs. fst (imleLoss ((model st)\<lparr>gVariables := vs\<rparr>)
                         ((tfRandom st)\<lparr>pos := pos (tfRandom st) + (j + 1) * prod_list (shape mn)\<rparr>)
                         rb mn))"
      by (simp add: mj rj)
    from sj o sj1 show ?thesis
      unfolding e r2 lam by blast
  qed
  from prep rb pool gen nn ga loop steps show ?thesis by blast
qed


subsection \<open>The loop of src/demo/imlelab.ts\<close>

text \<open>
  The loss of the closure, as a function of the variables: forward pass on the pool,
  matching against the real batch, gathering, \<open>imleLoss\<close>.
\<close>

lemma closure_body_fst:
  "fst (closure_body m g rb lat)
     = bindE (generator m lat) (\<lambda>genBatch.
       bindE (nearest_neighbour_t m rb genBatch) (\<lambda>nnIdx.
       bindE (gather lat nnIdx) (\<lambda>matchedNoise.
       fst (imleLoss m g rb matchedNoise))))"
  by (simp add: closure_body_def split: sum.splits)

lemma closure_body_Inr:
  assumes "closure_body m g rb lat = (Inr cost, g1)"
  shows "\<exists>genBatch nnIdx mn. generator m lat = Inr genBatch
     \<and> nearest_neighbour_t m rb genBatch = Inr nnIdx \<and> gather lat nnIdx = Inr mn
     \<and> g1 = g\<lparr>pos := pos g + prod_list (shape mn)\<rparr>"
proof -
  from assms obtain genBatch nnIdx mn where
    a: "generator m lat = Inr genBatch" and b: "nearest_neighbour_t m rb genBatch = Inr nnIdx"
    and c: "gather lat nnIdx = Inr mn" and d: "imleLoss m g rb mn = (Inr cost, g1)"
    by (auto simp: closure_body_def split: sum.splits)
  from d have "g1 = snd (imleLoss m g rb mn)" by simp
  then have "g1 = g\<lparr>pos := pos g + prod_list (shape mn)\<rparr>" by (simp add: imleLoss_snd)
  with a b c show ?thesis by blast
qed

lemma draw_batches_snd: "snd (draw_batches n p) = p\<lparr>calls := calls p + n\<rparr>"
  by (induction n arbitrary: p) (simp_all add: getNextCopy_def split_beta)

lemma getLatentPoolFrom_snd: "snd (getLatentPoolFrom p n) = p\<lparr>calls := calls p + n\<rparr>"
  by (simp add: getLatentPoolFrom_def split_beta draw_batches_snd)

lemma train_step_Inr:
  assumes "train_step mz st = Inr s1"
  shows "\<exists>opt latents genBatch nnIdx mn.
       gOptimizer (model st) = Some opt
     \<and> fst (getLatentPoolFrom (noiseProviderFixed st) (sampleFactor st)) = Inr latents
     \<and> generator (model st) latents = Inr genBatch
     \<and> nearest_neighbour_t (model st)
          (batchAt (trueSampleProvider st) (calls (trueSampleProvider st))) genBatch = Inr nnIdx
     \<and> gather latents nnIdx = Inr mn
     \<and> s1 = st\<lparr>model := (model st)\<lparr>gVariables :=
                   fst (mz opt (optimizerSlots st)
                          (\<lambda>vs. fst (closure_body ((model st)\<lparr>gVariables := vs\<rparr>) (tfRandom st)
                                       (batchAt (trueSampleProvider st) (calls (trueSampleProvider st)))
                                       latents))
                          (gVariables (model st)))\<rparr>,
               optimizerSlots :=
                   snd (mz opt (optimizerSlots st)
                          (\<lambda>vs. fst (closure_body ((model st)\<lparr>gVariables := vs\<rparr>) (tfRandom st)
                                       (batchAt (trueSampleProvider st) (calls (trueSampleProvider st)))
                                       latents))
                          (gVariables (model st))),
               trueSampleProvider :=
                   (trueSampleProvider st)\<lparr>calls := Suc (calls (trueSampleProvider st))\<rparr>,
               noiseProviderFixed :=
                   (noiseProviderFixed st)\<lparr>calls := calls (noiseProviderFixed st) + sampleFactor st\<rparr>,
               tfRandom := (tfRandom st)\<lparr>pos := pos (tfRandom st) + prod_list (shape mn)\<rparr>\<rparr>"
proof -
  let ?rb = "batchAt (trueSampleProvider st) (calls (trueSampleProvider st))"
  from assms obtain opt latents np cost g1 vs' slots' where
    o: "gOptimizer (model st) = Some opt"
    and p: "getLatentPoolFrom (noiseProviderFixed st) (sampleFactor st) = (Inr latents, np)"
    and c: "closure_body (model st) (tfRandom st) ?rb latents = (Inr cost, g1)"
    and m: "mz opt (optimizerSlots st)
              (\<lambda>vs. fst (closure_body ((model st)\<lparr>gVariables := vs\<rparr>) (tfRandom st) ?rb latents))
              (gVariables (model st)) = (vs', slots')"
    and s1: "s1 = st\<lparr>model := (model st)\<lparr>gVariables := vs'\<rparr>, optimizerSlots := slots',
                     trueSampleProvider :=
                       (trueSampleProvider st)\<lparr>calls := Suc (calls (trueSampleProvider st))\<rparr>,
                     noiseProviderFixed := np, tfRandom := g1\<rparr>"
    by (auto simp: train_step_def getNextCopy_def split: option.splits sum.splits prod.splits)
  from p have "np = snd (getLatentPoolFrom (noiseProviderFixed st) (sampleFactor st))" by simp
  then have np: "np = (noiseProviderFixed st)\<lparr>calls := calls (noiseProviderFixed st) + sampleFactor st\<rparr>"
    by (simp add: getLatentPoolFrom_snd)
  from closure_body_Inr [OF c] obtain genBatch nnIdx mn where
    a: "generator (model st) latents = Inr genBatch"
    and b: "nearest_neighbour_t (model st) ?rb genBatch = Inr nnIdx"
    and g: "gather latents nnIdx = Inr mn"
    and g1: "g1 = (tfRandom st)\<lparr>pos := pos (tfRandom st) + prod_list (shape mn)\<rparr>"
    by blast
  from p have "fst (getLatentPoolFrom (noiseProviderFixed st) (sampleFactor st)) = Inr latents"
    by simp
  with o a b g m s1 np g1 show ?thesis by simp
qed

lemma train_loop_snoc:
  "train_loop mz (Suc n) st = bindE (train_loop mz n st) (train_step mz)"
proof (induction n arbitrary: st)
  case 0
  show ?case by (cases "train_step mz st") simp_all
next
  case (Suc n)
  have ih: "train_loop mz (Suc n) = (\<lambda>s. bindE (train_loop mz n s) (train_step mz))"
    by (rule ext) (rule Suc.IH)
  have "train_loop mz (Suc (Suc n)) st = bindE (train_step mz st) (train_loop mz (Suc n))"
    by simp
  also have "\<dots> = bindE (train_step mz st) (\<lambda>s. bindE (train_loop mz n s) (train_step mz))"
    by (simp only: ih)
  also have "\<dots> = bindE (train_loop mz (Suc n) st) (train_step mz)"
    by (simp add: bindE_assoc)
  finally show ?case .
qed

lemma train_loop_prefix:
  "train_loop mz n st = Inr s' \<Longrightarrow> j \<le> n \<Longrightarrow> \<exists>sj. train_loop mz j st = Inr sj"
proof (induction n arbitrary: s')
  case 0
  then show ?case by simp
next
  case (Suc n)
  show ?case
  proof (cases "j = Suc n")
    case True
    with Suc.prems show ?thesis by blast
  next
    case False
    with Suc.prems have j: "j \<le> n" by simp
    from Suc.prems(1) obtain s where "train_loop mz n st = Inr s"
      by (cases "train_loop mz n st") (simp_all add: train_loop_snoc del: train_loop.simps)
    from Suc.IH [OF this j] show ?thesis .
  qed
qed

lemma train_loop_inv:
  "train_loop mz j st = Inr sj \<Longrightarrow>
   trueSampleProvider sj = (trueSampleProvider st)\<lparr>calls := calls (trueSampleProvider st) + j\<rparr>
   \<and> noiseProviderFixed sj
       = (noiseProviderFixed st)\<lparr>calls := calls (noiseProviderFixed st) + j * sampleFactor st\<rparr>
   \<and> sampleFactor sj = sampleFactor st
   \<and> (\<forall>vs. (model sj)\<lparr>gVariables := vs\<rparr> = (model st)\<lparr>gVariables := vs\<rparr>)"
proof (induction j arbitrary: st)
  case 0
  then show ?case by simp
next
  case (Suc j)
  from Suc.prems(1) obtain s1 where
    s: "train_step mz st = Inr s1" and l: "train_loop mz j s1 = Inr sj"
    by (cases "train_step mz st") simp_all
  from train_step_Inr [OF s]
  have t: "trueSampleProvider s1
             = (trueSampleProvider st)\<lparr>calls := Suc (calls (trueSampleProvider st))\<rparr>"
    and n: "noiseProviderFixed s1
             = (noiseProviderFixed st)\<lparr>calls := calls (noiseProviderFixed st) + sampleFactor st\<rparr>"
    and f: "sampleFactor s1 = sampleFactor st"
    and m: "\<forall>vs. (model s1)\<lparr>gVariables := vs\<rparr> = (model st)\<lparr>gVariables := vs\<rparr>"
    by auto
  from Suc.IH [OF l] t n f m show ?case by (simp add: algebra_simps)
qed


lemma iterateTraining_calls:
  assumes "isPlaying st" and "iterateTraining mz st = Inr st''" and j: "j < kGSteps st"
  shows "\<exists>opt sj latents genBatch nnIdx mn.
           train_loop mz j (st\<lparr>iterationCount := Suc (iterationCount st)\<rparr>) = Inr sj
         \<and> gOptimizer (model sj) = Some opt
         \<and> fst (getLatentPoolFrom
                  ((noiseProviderFixed st)\<lparr>calls := calls (noiseProviderFixed st)
                                                    + j * sampleFactor st\<rparr>)
                  (sampleFactor st)) = Inr latents
         \<and> generator (model sj) latents = Inr genBatch
         \<and> nearest_neighbour_t (model sj)
              (batchAt (trueSampleProvider st) (calls (trueSampleProvider st) + j)) genBatch
             = Inr nnIdx
         \<and> gather latents nnIdx = Inr mn
         \<and> train_loop mz (Suc j) (st\<lparr>iterationCount := Suc (iterationCount st)\<rparr>)
             = Inr (sj\<lparr>model := (model sj)\<lparr>gVariables :=
                         fst (mz opt (optimizerSlots sj)
                                (\<lambda>vs. bindE (generator ((model st)\<lparr>gVariables := vs\<rparr>) latents)
                                   (\<lambda>genBatch.
                                 bindE (nearest_neighbour_t ((model st)\<lparr>gVariables := vs\<rparr>)
                                          (batchAt (trueSampleProvider st)
                                             (calls (trueSampleProvider st) + j)) genBatch)
                                   (\<lambda>nnIdx.
                                 bindE (gather latents nnIdx)
                                   (\<lambda>matchedNoise.
                                 fst (imleLoss ((model st)\<lparr>gVariables := vs\<rparr>) (tfRandom sj)
                                        (batchAt (trueSampleProvider st)
                                           (calls (trueSampleProvider st) + j))
                                        matchedNoise)))))
                                (gVariables (model sj)))\<rparr>,
                       optimizerSlots :=
                         snd (mz opt (optimizerSlots sj)
                                (\<lambda>vs. bindE (generator ((model st)\<lparr>gVariables := vs\<rparr>) latents)
                                   (\<lambda>genBatch.
                                 bindE (nearest_neighbour_t ((model st)\<lparr>gVariables := vs\<rparr>)
                                          (batchAt (trueSampleProvider st)
                                             (calls (trueSampleProvider st) + j)) genBatch)
                                   (\<lambda>nnIdx.
                                 bindE (gather latents nnIdx)
                                   (\<lambda>matchedNoise.
                                 fst (imleLoss ((model st)\<lparr>gVariables := vs\<rparr>) (tfRandom sj)
                                        (batchAt (trueSampleProvider st)
                                           (calls (trueSampleProvider st) + j))
                                        matchedNoise)))))
                                (gVariables (model sj))),
                       trueSampleProvider :=
                         (trueSampleProvider st)\<lparr>calls := calls (trueSampleProvider st) + Suc j\<rparr>,
                       noiseProviderFixed :=
                         (noiseProviderFixed st)\<lparr>calls := calls (noiseProviderFixed st)
                                                           + Suc j * sampleFactor st\<rparr>,
                       tfRandom := (tfRandom sj)\<lparr>pos := pos (tfRandom sj)
                                                      + prod_list (shape mn)\<rparr>\<rparr>)"
proof -
  let ?st0 = "st\<lparr>iterationCount := Suc (iterationCount st)\<rparr>"
  let ?rb = "batchAt (trueSampleProvider st) (calls (trueSampleProvider st) + j)"
  from assms have loop: "train_loop mz (kGSteps st) ?st0 = Inr st''"
    by (simp add: iterateTraining_def)
  from j have "Suc j \<le> kGSteps st" by simp
  from train_loop_prefix [OF loop this] obtain sj1 where
    sj1: "train_loop mz (Suc j) ?st0 = Inr sj1" by blast
  then obtain sj where sj: "train_loop mz j ?st0 = Inr sj"
    and step: "train_step mz sj = Inr sj1"
    by (cases "train_loop mz j ?st0") (simp_all add: train_loop_snoc del: train_loop.simps)
  from train_loop_inv [OF sj]
  have tp: "trueSampleProvider sj
              = (trueSampleProvider st)\<lparr>calls := calls (trueSampleProvider st) + j\<rparr>"
    and np: "noiseProviderFixed sj
              = (noiseProviderFixed st)\<lparr>calls := calls (noiseProviderFixed st)
                                                + j * sampleFactor st\<rparr>"
    and sf: "sampleFactor sj = sampleFactor st"
    and mj: "\<And>vs. (model sj)\<lparr>gVariables := vs\<rparr> = (model st)\<lparr>gVariables := vs\<rparr>"
    by simp_all
  have rb: "batchAt (trueSampleProvider sj) (calls (trueSampleProvider sj)) = ?rb"
    by (simp add: tp)
  from train_step_Inr [OF step] obtain opt latents genBatch nnIdx mn where
    o: "gOptimizer (model sj) = Some opt"
    and p: "fst (getLatentPoolFrom (noiseProviderFixed sj) (sampleFactor sj)) = Inr latents"
    and g: "generator (model sj) latents = Inr genBatch"
    and n: "nearest_neighbour_t (model sj)
              (batchAt (trueSampleProvider sj) (calls (trueSampleProvider sj))) genBatch = Inr nnIdx"
    and ga: "gather latents nnIdx = Inr mn"
    and e: "sj1 = sj\<lparr>model := (model sj)\<lparr>gVariables :=
                   fst (mz opt (optimizerSlots sj)
                          (\<lambda>vs. fst (closure_body ((model sj)\<lparr>gVariables := vs\<rparr>) (tfRandom sj)
                                       (batchAt (trueSampleProvider sj) (calls (trueSampleProvider sj)))
                                       latents))
                          (gVariables (model sj)))\<rparr>,
               optimizerSlots :=
                   snd (mz opt (optimizerSlots sj)
                          (\<lambda>vs. fst (closure_body ((model sj)\<lparr>gVariables := vs\<rparr>) (tfRandom sj)
                                       (batchAt (trueSampleProvider sj) (calls (trueSampleProvider sj)))
                                       latents))
                          (gVariables (model sj))),
               trueSampleProvider :=
                   (trueSampleProvider sj)\<lparr>calls := Suc (calls (trueSampleProvider sj))\<rparr>,
               noiseProviderFixed :=
                   (noiseProviderFixed sj)\<lparr>calls := calls (noiseProviderFixed sj) + sampleFactor sj\<rparr>,
               tfRandom := (tfRandom sj)\<lparr>pos := pos (tfRandom sj) + prod_list (shape mn)\<rparr>\<rparr>"
    by blast
  have lam: "(\<lambda>vs. fst (closure_body ((model sj)\<lparr>gVariables := vs\<rparr>) (tfRandom sj)
                         (batchAt (trueSampleProvider sj) (calls (trueSampleProvider sj))) latents))
      = (\<lambda>vs. bindE (generator ((model st)\<lparr>gVariables := vs\<rparr>) latents)
                 (\<lambda>genBatch.
               bindE (nearest_neighbour_t ((model st)\<lparr>gVariables := vs\<rparr>) ?rb genBatch)
                 (\<lambda>nnIdx.
               bindE (gather latents nnIdx)
                 (\<lambda>matchedNoise.
               fst (imleLoss ((model st)\<lparr>gVariables := vs\<rparr>) (tfRandom sj) ?rb matchedNoise)))))"
    by (simp only: closure_body_fst mj rb)
  have tp2: "(trueSampleProvider sj)\<lparr>calls := Suc (calls (trueSampleProvider sj))\<rparr>
      = (trueSampleProvider st)\<lparr>calls := calls (trueSampleProvider st) + Suc j\<rparr>"
    by (simp add: tp)
  have np2: "(noiseProviderFixed sj)\<lparr>calls := calls (noiseProviderFixed sj) + sampleFactor sj\<rparr>
      = (noiseProviderFixed st)\<lparr>calls := calls (noiseProviderFixed st) + Suc j * sampleFactor st\<rparr>"
    by (simp add: np sf algebra_simps)
  from p have p': "fst (getLatentPoolFrom
                  ((noiseProviderFixed st)\<lparr>calls := calls (noiseProviderFixed st)
                                                    + j * sampleFactor st\<rparr>)
                  (sampleFactor st)) = Inr latents" by (simp only: np sf)
  from n have n': "nearest_neighbour_t (model sj) ?rb genBatch = Inr nnIdx" by (simp only: rb)
  from sj o p' g n' ga sj1 show ?thesis
    unfolding e lam tp2 np2 by blast
qed


subsection \<open>Evaluation on the small configuration\<close>

lemmas train_eval =
  viz_pool_def nearest_neighbour_t_def as_points_def gather_def concat0_def
  getLatentPoolFrom_def getNextCopy_def imleLoss_def mse_def randomNormal_def normal_at_def
  flatModel_def batchA_def batchB_def unitDraws_def oneNoise_def
  generator_def dense_def bindE_def matMul_def add_def leaky_def map_vals_def
  nearest_neighbour_def maskedDistances_def mask_row_def keepMask_def logicalOr_def
  forceKeep_def greater_mask_def large_def minDistToReal_def min_axis0_def distances_def
  dist_cell_def sq_dist_def new_IMLELabModel_def upt_rec power2_eq_square numeral_2_eq_2

lemma flat_opt: "gOptimizer flatModel = Some (SGD 0)"
  by (simp add: flatModel_def)

lemma pool_eval:
  "getLatentPoolFrom \<lparr>batchAt = (\<lambda>k. oneNoise), calls = c\<rparr> (Suc 0)
     = (Inr oneNoise, \<lparr>batchAt = (\<lambda>k. oneNoise), calls = Suc c\<rparr>)"
  by (simp add: getLatentPoolFrom_def getNextCopy_def concat0_def oneNoise_def)

lemma closure_A:
  "closure_body flatModel (unitDraws\<lparr>pos := p\<rparr>) batchA oneNoise
     = (Inr 0, unitDraws\<lparr>pos := Suc p\<rparr>)"
  by (simp add: closure_body_def train_eval)

lemma closure_B:
  "closure_body flatModel (unitDraws\<lparr>pos := p\<rparr>) batchB oneNoise
     = (Inr (1 / 4), unitDraws\<lparr>pos := Suc p\<rparr>)"
  by (simp add: closure_body_def train_eval)

lemma unit0: "unitDraws\<lparr>pos := 0\<rparr> = unitDraws"
  by (simp add: unitDraws_def)

lemma gen_flat: "generator flatModel oneNoise = Inr flatPool"
  by (simp add: train_eval flatPool_def)

lemma nn_A: "nearest_neighbour_t flatModel batchA flatPool = Inr [0]"
  by (simp add: train_eval flatPool_def)

lemma gather_A: "gather oneNoise [0] = Inr matchedA"
  by (simp add: train_eval matchedA_def)

lemma loss_A:
  "imleLoss flatModel (unitDraws\<lparr>pos := p\<rparr>) batchA matchedA = (Inr 0, unitDraws\<lparr>pos := Suc p\<rparr>)"
  by (simp add: train_eval matchedA_def)


lemma closure_A0:
  "closure_body flatModel unitDraws batchA oneNoise = (Inr 0, unitDraws\<lparr>pos := Suc 0\<rparr>)"
  using closure_A [of 0] by (simp add: unit0)

lemma loss_A0:
  "imleLoss flatModel unitDraws batchA matchedA = (Inr 0, unitDraws\<lparr>pos := Suc 0\<rparr>)"
  using loss_A [of 0] by (simp add: unit0)

lemma demo_imlelab:
  "iterateTraining recordCalls demoPage
     = Inr (demoPage\<lparr>optimizerSlots :=
                       [\<lambda>vs. fst (closure_body (flatModel\<lparr>gVariables := vs\<rparr>) unitDraws
                                    batchA oneNoise),
                        \<lambda>vs. fst (closure_body (flatModel\<lparr>gVariables := vs\<rparr>)
                                    (unitDraws\<lparr>pos := 1\<rparr>) batchB oneNoise)],
                     iterationCount := 1,
                     trueSampleProvider := (trueSampleProvider demoPage)\<lparr>calls := 2\<rparr>,
                     noiseProviderFixed := (noiseProviderFixed demoPage)\<lparr>calls := 2\<rparr>,
                     tfRandom := unitDraws\<lparr>pos := 2\<rparr>\<rparr>)"
  by (simp add: iterateTraining_def demoPage_def train_step_def recordCalls_def numeral_2_eq_2
        flat_opt pool_eval getNextCopy_def closure_A0 closure_B)

lemma demo_part001:
  "iterateTraining_part001 recordCalls demoPage
     = Inr (demoPage\<lparr>optimizerSlots :=
                       [\<lambda>vs. fst (imleLoss (flatModel\<lparr>gVariables := vs\<rparr>)
                                    (unitDraws\<lparr>pos := 1\<rparr>) batchA matchedA),
                        \<lambda>vs. fst (imleLoss (flatModel\<lparr>gVariables := vs\<rparr>)
                                    (unitDraws\<lparr>pos := 2\<rparr>) batchA matchedA)],
                     iterationCount := 1,
                     trueSampleProvider := (trueSampleProvider demoPage)\<lparr>calls := 1\<rparr>,
                     noiseProvider := (noiseProvider demoPage)\<lparr>calls := 1\<rparr>,
                     tfRandom := unitDraws\<lparr>pos := 3\<rparr>\<rparr>)"
  by (simp add: iterateTraining_part001_def prepare_iteration_def demoPage_def optimize_step_def
        recordCalls_def numeral_2_eq_2 numeral_3_eq_3 viz_pool_def
        flat_opt pool_eval getNextCopy_def gen_flat nn_A gather_A loss_A0 loss_A)


lemma nn_B: "nearest_neighbour_t flatModel batchB flatPool = Inr [0]"
  by (simp add: train_eval flatPool_def)

lemma demo_sel:
  "isPlaying demoPage" "kGSteps demoPage = 2" "sampleFactor demoPage = 1"
  "model demoPage = flatModel" "tfRandom demoPage = unitDraws" "optimizerSlots demoPage = []"
  "iterationCount demoPage = 0"
  "trueSampleProvider demoPage = \<lparr>batchAt = (\<lambda>k. if k = 0 then batchA else batchB), calls = 0\<rparr>"
  "noiseProvider demoPage = \<lparr>batchAt = (\<lambda>k. oneNoise), calls = 0\<rparr>"
  "noiseProviderFixed demoPage = \<lparr>batchAt = (\<lambda>k. oneNoise), calls = 0\<rparr>"
  by (simp_all add: demoPage_def)

lemma fixture_sel: "pos unitDraws = 0" "prod_list (shape matchedA) = 1"
  by (simp_all add: unitDraws_def matchedA_def)

lemma demo_prepare:
  "prepare_iteration demoPage
     = Inr (batchA, oneNoise, [0],
            demoPage\<lparr>iterationCount := 1,
                     trueSampleProvider := (trueSampleProvider demoPage)\<lparr>calls := 1\<rparr>,
                     noiseProvider := (noiseProvider demoPage)\<lparr>calls := 1\<rparr>,
                     tfRandom := unitDraws\<lparr>pos := 1\<rparr>\<rparr>)"
  by (simp add: prepare_iteration_def demoPage_def viz_pool_def
        pool_eval getNextCopy_def gen_flat nn_A gather_A loss_A0)

lemma demo_train_1:
  "train_loop recordCalls 1 (demoPage\<lparr>iterationCount := Suc (iterationCount demoPage)\<rparr>)
     = Inr (demoPage\<lparr>optimizerSlots :=
                       [\<lambda>vs. fst (closure_body (flatModel\<lparr>gVariables := vs\<rparr>) unitDraws
                                    batchA oneNoise)],
                     iterationCount := 1,
                     trueSampleProvider := (trueSampleProvider demoPage)\<lparr>calls := 1\<rparr>,
                     noiseProviderFixed := (noiseProviderFixed demoPage)\<lparr>calls := 1\<rparr>,
                     tfRandom := unitDraws\<lparr>pos := 1\<rparr>\<rparr>)"
  by (simp add: demoPage_def train_step_def recordCalls_def
        flat_opt pool_eval getNextCopy_def closure_A0)

subsection \<open>What the optimizer steps of one iteration are built from (C4)\<close>

text \<open>
  C4, as stated, fails on \<open>iterateTraining\<close> of \<open>src/demo/imlelab.ts\<close>: there the function
  passed to \<open>minimize\<close> draws the real batch and the latent pool itself and matches them
  anew. On the small configuration, whose optimizer step leaves the variables as they
  are, the two calls of \<open>minimize\<close> in one iteration receive two different loss
  functions: the first is built from the first batch of \<open>trueSampleProvider\<close>, the second
  from its second batch, and at the same variables they have the values \<open>0\<close> and \<open>1/4\<close>
  (every candidate is the point \<open>(0.5, 0.5)\<close>, so the perturbation has no part in the
  difference).
\<close>

theorem iterateTraining_redraws_real_batch:
  "iterateTraining recordCalls demoPage
     = Inr (demoPage\<lparr>optimizerSlots :=
                       [\<lambda>vs. fst (closure_body (flatModel\<lparr>gVariables := vs\<rparr>) unitDraws
                                    batchA oneNoise),
                        \<lambda>vs. fst (closure_body (flatModel\<lparr>gVariables := vs\<rparr>)
                                    (unitDraws\<lparr>pos := 1\<rparr>) batchB oneNoise)],
                     iterationCount := 1,
                     trueSampleProvider := (trueSampleProvider demoPage)\<lparr>calls := 2\<rparr>,
                     noiseProviderFixed := (noiseProviderFixed demoPage)\<lparr>calls := 2\<rparr>,
                     tfRandom := unitDraws\<lparr>pos := 2\<rparr>\<rparr>)
   \<and> fst (closure_body (flatModel\<lparr>gVariables := gVariables flatModel\<rparr>) unitDraws
            batchA oneNoise) = Inr 0
   \<and> fst (closure_body (flatModel\<lparr>gVariables := gVariables flatModel\<rparr>)
            (unitDraws\<lparr>pos := 1\<rparr>) batchB oneNoise) = Inr (1 / 4)
   \<and> batchA \<noteq> batchB"
proof (intro conjI)
  show "iterateTraining recordCalls demoPage
     = Inr (demoPage\<lparr>optimizerSlots :=
                       [\<lambda>vs. fst (closure_body (flatModel\<lparr>gVariables := vs\<rparr>) unitDraws
                                    batchA oneNoise),
                        \<lambda>vs. fst (closure_body (flatModel\<lparr>gVariables := vs\<rparr>)
                                    (unitDraws\<lparr>pos := 1\<rparr>) batchB oneNoise)],
                     iterationCount := 1,
                     trueSampleProvider := (trueSampleProvider demoPage)\<lparr>calls := 2\<rparr>,
                     noiseProviderFixed := (noiseProviderFixed demoPage)\<lparr>calls := 2\<rparr>,
                     tfRandom := unitDraws\<lparr>pos := 2\<rparr>\<rparr>)"
    by (rule demo_imlelab)
  show "fst (closure_body (flatModel\<lparr>gVariables := gVariables flatModel\<rparr>) unitDraws
            batchA oneNoise) = Inr 0"
    by (simp add: closure_A0)
  show "fst (closure_body (flatModel\<lparr>gVariables := gVariables flatModel\<rparr>)
            (unitDraws\<lparr>pos := 1\<rparr>) batchB oneNoise) = Inr (1 / 4)"
    by (simp add: closure_B)
  show "batchA \<noteq> batchB" by (simp add: batchA_def batchB_def)
qed


text \<open>
  C4, amended: whatever \<open>minimize\<close> does with the loss it is given, in an iteration that
  returns each of the \<open>kGSteps\<close> calls of \<open>minimize\<close> receives a loss that is evaluated
  anew, with a perturbation drawn at that call's own position of the random stream.

  In \<open>iterateTraining\<close> of \<open>src/unnamed/part_001\<close> the loss of call \<open>j\<close> is \<open>imleLoss\<close>, as
  a function of the variables, on the real batch, the latent pool and the match indices
  computed once at the top of the iteration (the next batch of \<open>trueSampleProvider\<close>, a
  pool of \<open>noiseProvider\<close>, the match under the variables the iteration starts with); its
  perturbation is the block of draws number \<open>j + 1\<close> after the position at which the
  iteration starts (block 0 goes to the loss computed for the display).

  In \<open>iterateTraining\<close> of \<open>src/demo/imlelab.ts\<close> the loss of call \<open>j\<close> is, as a function of
  the variables, the forward pass on a pool drawn at that call from
  \<open>noiseProviderFixed\<close>, the matching of its candidates against the \<open>j\<close>-th next batch of
  \<open>trueSampleProvider\<close>, the gathering of the matched latents and \<open>imleLoss\<close> on them: real
  batch, pool and match indices are those of the call, not of the iteration, and the
  match depends on the variables. The random generator moves past the perturbation of
  each call.
\<close>

theorem iterateTraining_minimize_calls:
  assumes "isPlaying st"
  shows "(iterateTraining_part001 mz st = Inr st' \<longrightarrow>
           (\<exists>realBatch latents genPool nnIdx mn st1.
              prepare_iteration st = Inr (realBatch, latents, nnIdx, st1)
            \<and> realBatch = batchAt (trueSampleProvider st) (calls (trueSampleProvider st))
            \<and> fst (getLatentPoolFrom (noiseProvider st) (sampleFactor st)) = Inr latents
            \<and> generator (model st) latents = Inr genPool
            \<and> nearest_neighbour_t (model st) realBatch genPool = Inr nnIdx
            \<and> gather latents nnIdx = Inr mn
            \<and> optimize_loop mz realBatch latents nnIdx (kGSteps st) st1 = Inr st'
            \<and> (\<forall>j < kGSteps st. \<exists>opt sj.
                  optimize_loop mz realBatch latents nnIdx j st1 = Inr sj
                \<and> gOptimizer (model sj) = Some opt
                \<and> optimize_loop mz realBatch latents nnIdx (Suc j) st1
                    = Inr (sj\<lparr>model := (model sj)\<lparr>gVariables :=
                                fst (mz opt (optimizerSlots sj)
                                       (\<lambda>vs. fst (imleLoss ((model st)\<lparr>gVariables := vs\<rparr>)
                                                     ((tfRandom st)\<lparr>pos := pos (tfRandom st)
                                                         + (j + 1) * prod_list (shape mn)\<rparr>)
                                                     realBatch mn))
                                       (gVariables (model sj)))\<rparr>,
                              optimizerSlots :=
                                snd (mz opt (optimizerSlots sj)
                                       (\<lambda>vs. fst (imleLoss ((model st)\<lparr>gVariables := vs\<rparr>)
                                                     ((tfRandom st)\<lparr>pos := pos (tfRandom st)
                                                         + (j + 1) * prod_list (shape mn)\<rparr>)
                                                     realBatch mn))
                                       (gVariables (model sj))),
                              tfRandom := (tfRandom st)\<lparr>pos := pos (tfRandom st)
                                              + (j + 2) * prod_list (shape mn)\<rparr>\<rparr>))))
       \<and> (iterateTraining mz st = Inr st'' \<longrightarrow>
           (\<forall>j < kGSteps st.
              (\<exists>opt sj latents genBatch nnIdx mn.
                 train_loop mz j (st\<lparr>iterationCount := Suc (iterationCount st)\<rparr>) = Inr sj
               \<and> gOptimizer (model sj) = Some opt
               \<and> fst (getLatentPoolFrom
                        ((noiseProviderFixed st)\<lparr>calls := calls (noiseProviderFixed st)
                                                          + j * sampleFactor st\<rparr>)
                        (sampleFactor st)) = Inr latents
               \<and> generator (model sj) latents = Inr genBatch
               \<and> nearest_neighbour_t (model sj)
                    (batchAt (trueSampleProvider st) (calls (trueSampleProvider st) + j)) genBatch
                   = Inr nnIdx
               \<and> gather latents nnIdx = Inr mn
               \<and> train_loop mz (Suc j) (st\<lparr>iterationCount := Suc (iterationCount st)\<rparr>)
                   = Inr (sj\<lparr>model := (model sj)\<lparr>gVariables :=
                               fst (mz opt (optimizerSlots sj)
                                      (\<lambda>vs. bindE (generator ((model st)\<lparr>gVariables := vs\<rparr>) latents)
                                         (\<lambda>genBatch.
                                       bindE (nearest_neighbour_t ((model st)\<lparr>gVariables := vs\<rparr>)
                                                (batchAt (trueSampleProvider st)
                                                   (calls (trueSampleProvider st) + j)) genBatch)
                                         (\<lambda>nnIdx.
                                       bindE (gather latents nnIdx)
                                         (\<lambda>matchedNoise.
                                       fst (imleLoss ((model st)\<lparr>gVariables := vs\<rparr>) (tfRandom sj)
                                              (batchAt (trueSampleProvider st)
                                                 (calls (trueSampleProvider st) + j))
                                              matchedNoise)))))
                                      (gVariables (model sj)))\<rparr>,
                             optimizerSlots :=
                               snd (mz opt (optimizerSlots sj)
                                      (\<lambda>vs. bindE (generator ((model st)\<lparr>gVariables := vs\<rparr>) latents)
                                         (\<lambda>genBatch.
                                       bindE (nearest_neighbour_t ((model st)\<lparr>gVariables := vs\<rparr>)
                                                (batchAt (trueSampleProvider st)
                                                   (calls (trueSampleProvider st) + j)) genBatch)
                                         (\<lambda>nnIdx.
                                       bindE (gather latents nnIdx)
                                         (\<lambda>matchedNoise.
                                       fst (imleLoss ((model st)\<lparr>gVariables := vs\<rparr>) (tfRandom sj)
                                              (batchAt (trueSampleProvider st)
                                                 (calls (trueSampleProvider st) + j))
                                              matchedNoise)))))
                                      (gVariables (model sj))),
                             trueSampleProvider :=
                               (trueSampleProvider st)\<lparr>calls := calls (trueSampleProvider st)
                                                               + Suc j\<rparr>,
                             noiseProviderFixed :=
                               (noiseProviderFixed st)\<lparr>calls := calls (noiseProviderFixed st)
                                                                 + Suc j * sampleFactor st\<rparr>,
                             tfRandom := (tfRandom sj)\<lparr>pos := pos (tfRandom sj)
                                                            + prod_list (shape mn)\<rparr>\<rparr>))))"
proof (intro conjI impI allI)
  assume "iterateTraining_part001 mz st = Inr st'"
  with assms show "(\<exists>realBatch latents genPool nnIdx mn st1.
              prepare_iteration st = Inr (realBatch, latents, nnIdx, st1)
            \<and> realBatch = batchAt (trueSampleProvider st) (calls (trueSampleProvider st))
            \<and> fst (getLatentPoolFrom (noiseProvider st) (sampleFactor st)) = Inr latents
            \<and> generator (model st) latents = Inr genPool
            \<and> nearest_neighbour_t (model st) realBatch genPool = Inr nnIdx
            \<and> gather latents nnIdx = Inr mn
            \<and> optimize_loop mz realBatch latents nnIdx (kGSteps st) st1 = Inr st'
            \<and> (\<forall>j < kGSteps st. \<exists>opt sj.
                  optimize_loop mz realBatch latents nnIdx j st1 = Inr sj
                \<and> gOptimizer (model sj) = Some opt
                \<and> optimize_loop mz realBatch latents nnIdx (Suc j) st1
                    = Inr (sj\<lparr>model := (model sj)\<lparr>gVariables :=
                                fst (mz opt (optimizerSlots sj)
                                       (\<lambda>vs. fst (imleLoss ((model st)\<lparr>gVariables := vs\<rparr>)
                                                     ((tfRandom st)\<lparr>pos := pos (tfRandom st)
                                                         + (j + 1) * prod_list (shape mn)\<rparr>)
                                                     realBatch mn))
                                       (gVariables (model sj)))\<rparr>,
                              optimizerSlots :=
                                snd (mz opt (optimizerSlots sj)
                                       (\<lambda>vs. fst (imleLoss ((model st)\<lparr>gVariables := vs\<rparr>)
                                                     ((tfRandom st)\<lparr>pos := pos (tfRandom st)
                                                         + (j + 1) * prod_list (shape mn)\<rparr>)
                                                     realBatch mn))
                                       (gVariables (model sj))),
                              tfRandom := (tfRandom st)\<lparr>pos := pos (tfRandom st)
                                              + (j + 2) * prod_list (shape mn)\<rparr>\<rparr>)))"
    by (rule iterateTraining_part001_calls)
next
  fix j
  assume "iterateTraining mz st = Inr st''" and "j < kGSteps st"
  with assms show "(\<exists>opt sj latents genBatch nnIdx mn.
                 train_loop mz j (st\<lparr>iterationCount := Suc (iterationCount st)\<rparr>) = Inr sj
               \<and> gOptimizer (model sj) = Some opt
               \<and> fst (getLatentPoolFrom
                        ((noiseProviderFixed st)\<lparr>calls := calls (noiseProviderFixed st)
                                                          + j * sampleFactor st\<rparr>)
                        (sampleFactor st)) = Inr latents
               \<and> generator (model sj) latents = Inr genBatch
               \<and> nearest_neighbour_t (model sj)
                    (batchAt (trueSampleProvider st) (calls (trueSampleProvider st) + j)) genBatch
                   = Inr nnIdx
               \<and> gather latents nnIdx = Inr mn
               \<and> train_loop mz (Suc j) (st\<lparr>iterationCount := Suc (iterationCount st)\<rparr>)
                   = Inr (sj\<lparr>model := (model sj)\<lparr>gVariables :=
                               fst (mz opt (optimizerSlots sj)
                                      (\<lambda>vs. bindE (generator ((model st)\<lparr>gVariables := vs\<rparr>) latents)
                                         (\<lambda>genBatch.
                                       bindE (nearest_neighbour_t ((model st)\<lparr>gVariables := vs\<rparr>)
                                                (batchAt (trueSampleProvider st)
                                                   (calls (trueSampleProvider st) + j)) genBatch)
                                         (\<lambda>nnIdx.
                                       bindE (gather latents nnIdx)
                                         (\<lambda>matchedNoise.
                                       fst (imleLoss ((model st)\<lparr>gVariables := vs\<rparr>) (tfRandom sj)
                                              (batchAt (trueSampleProvider st)
                                                 (calls (trueSampleProvider st) + j))
                                              matchedNoise)))))
                                      (gVariables (model sj)))\<rparr>,
                             optimizerSlots :=
                               snd (mz opt (optimizerSlots sj)
                                      (\<lambda>vs. bindE (generator ((model st)\<lparr>gVariables := vs\<rparr>) latents)
                                         (\<lambda>genBatch.
                                       bindE (nearest_neighbour_t ((model st)\<lparr>gVariables := vs\<rparr>)
                                                (batchAt (trueSampleProvider st)
                                                   (calls (trueSampleProvider st) + j)) genBatch)
                                         (\<lambda>nnIdx.
                                       bindE (gather latents nnIdx)
                                         (\<lambda>matchedNoise.
                                       fst (imleLoss ((model st)\<lparr>gVariables := vs\<rparr>) (tfRandom sj)
                                              (batchAt (trueSampleProvider st)
                                                 (calls (trueSampleProvider st) + j))
                                              matchedNoise)))))
                                      (gVariables (model sj))),
                             trueSampleProvider :=
                               (trueSampleProvider st)\<lparr>calls := calls (trueSampleProvider st)
                                                               + Suc j\<rparr>,
                             noiseProviderFixed :=
                               (noiseProviderFixed st)\<lparr>calls := calls (noiseProviderFixed st)
                                                                 + Suc j * sampleFactor st\<rparr>,
                             tfRandom := (tfRandom sj)\<lparr>pos := pos (tfRandom sj)
                                                            + prod_list (shape mn)\<rparr>\<rparr>))"
    by (rule iterateTraining_calls)
qed


text \<open>
  Witness for C4 (amended): both variants on the small configuration. The iteration of
  \<open>part_001\<close> hands \<open>minimize\<close> twice the loss on the first batch, with the perturbations
  at positions 1 and 2; the iteration of \<open>imlelab.ts\<close> hands it the loss on the first
  batch, then the loss on the second. The last two conjuncts are the second call
  (\<open>j = 1\<close>) of either variant, as the theorem gives it.
\<close>

theorem iterateTraining_minimize_calls_witness:
  "isPlaying demoPage
   \<and> iterateTraining_part001 recordCalls demoPage
       = Inr (demoPage\<lparr>optimizerSlots :=
                       [\<lambda>vs. fst (imleLoss (flatModel\<lparr>gVariables := vs\<rparr>)
                                    (unitDraws\<lparr>pos := 1\<rparr>) batchA matchedA),
                        \<lambda>vs. fst (imleLoss (flatModel\<lparr>gVariables := vs\<rparr>)
                                    (unitDraws\<lparr>pos := 2\<rparr>) batchA matchedA)],
                     iterationCount := 1,
                     trueSampleProvider := (trueSampleProvider demoPage)\<lparr>calls := 1\<rparr>,
                     noiseProvider := (noiseProvider demoPage)\<lparr>calls := 1\<rparr>,
                     tfRandom := unitDraws\<lparr>pos := 3\<rparr>\<rparr>)
   \<and> iterateTraining recordCalls demoPage
       = Inr (demoPage\<lparr>optimizerSlots :=
                       [\<lambda>vs. fst (closure_body (flatModel\<lparr>gVariables := vs\<rparr>) unitDraws
                                    batchA oneNoise),
                        \<lambda>vs. fst (closure_body (flatModel\<lparr>gVariables := vs\<rparr>)
                                    (unitDraws\<lparr>pos := 1\<rparr>) batchB oneNoise)],
                     iterationCount := 1,
                     trueSampleProvider := (trueSampleProvider demoPage)\<lparr>calls := 2\<rparr>,
                     noiseProviderFixed := (noiseProviderFixed demoPage)\<lparr>calls := 2\<rparr>,
                     tfRandom := unitDraws\<lparr>pos := 2\<rparr>\<rparr>)
   \<and> (\<exists>st1 opt sj.
         prepare_iteration demoPage = Inr (batchA, oneNoise, [0], st1)
       \<and> generator flatModel oneNoise = Inr flatPool
       \<and> nearest_neighbour_t flatModel batchA flatPool = Inr [0]
       \<and> gather oneNoise [0] = Inr matchedA
       \<and> optimize_loop recordCalls batchA oneNoise [0] 1 st1 = Inr sj
       \<and> gOptimizer (model sj) = Some opt
       \<and> optimize_loop recordCalls batchA oneNoise [0] 2 st1
           = Inr (sj\<lparr>model := (model sj)\<lparr>gVariables :=
                       fst (recordCalls opt (optimizerSlots sj)
                              (\<lambda>vs. fst (imleLoss (flatModel\<lparr>gVariables := vs\<rparr>)
                                          (unitDraws\<lparr>pos := 2\<rparr>) batchA matchedA))
                              (gVariables (model sj)))\<rparr>,
                     optimizerSlots :=
                       snd (recordCalls opt (optimizerSlots sj)
                              (\<lambda>vs. fst (imleLoss (flatModel\<lparr>gVariables := vs\<rparr>)
                                          (unitDraws\<lparr>pos := 2\<rparr>) batchA matchedA))
                              (gVariables (model sj))),
                     tfRandom := unitDraws\<lparr>pos := 3\<rparr>\<rparr>))
   \<and> (\<exists>opt sj.
         train_loop recordCalls 1 (demoPage\<lparr>iterationCount := 1\<rparr>) = Inr sj
       \<and> gOptimizer (model sj) = Some opt
       \<and> model sj = flatModel
       \<and> generator flatModel oneNoise = Inr flatPool
       \<and> nearest_neighbour_t flatModel batchB flatPool = Inr [0]
       \<and> gather oneNoise [0] = Inr matchedA
       \<and> train_loop recordCalls 2 (demoPage\<lparr>iterationCount := 1\<rparr>)
           = Inr (sj\<lparr>model := (model sj)\<lparr>gVariables :=
                       fst (recordCalls opt (optimizerSlots sj)
                              (\<lambda>vs. bindE (generator (flatModel\<lparr>gVariables := vs\<rparr>) oneNoise)
                                 (\<lambda>genBatch.
                               bindE (nearest_neighbour_t (flatModel\<lparr>gVariables := vs\<rparr>)
                                        batchB genBatch)
                                 (\<lambda>nnIdx.
                               bindE (gather oneNoise nnIdx)
                                 (\<lambda>matchedNoise.
                               fst (imleLoss (flatModel\<lparr>gVariables := vs\<rparr>)
                                      (unitDraws\<lparr>pos := 1\<rparr>) batchB matchedNoise)))))
                              (gVariables (model sj)))\<rparr>,
                     optimizerSlots :=
                       snd (recordCalls opt (optimizerSlots sj)
                              (\<lambda>vs. bindE (generator (flatModel\<lparr>gVariables := vs\<rparr>) oneNoise)
                                 (\<lambda>genBatch.
                               bindE (nearest_neighbour_t (flatModel\<lparr>gVariables := vs\<rparr>)
                                        batchB genBatch)
                                 (\<lambda>nnIdx.
                               bindE (gather oneNoise nnIdx)
                                 (\<lambda>matchedNoise.
                               fst (imleLoss (flatModel\<lparr>gVariables := vs\<rparr>)
                                      (unitDraws\<lparr>pos := 1\<rparr>) batchB matchedNoise)))))
                              (gVariables (model sj))),
                     trueSampleProvider := (trueSampleProvider demoPage)\<lparr>calls := 2\<rparr>,
                     noiseProviderFixed := (noiseProviderFixed demoPage)\<lparr>calls := 2\<rparr>,
                     tfRandom := unitDraws\<lparr>pos := 2\<rparr>\<rparr>))"
proof -
  have playing: "isPlaying demoPage" by (rule demo_sel)
  have pA: "iterateTraining_part001 recordCalls demoPage
       = Inr (demoPage\<lparr>optimizerSlots :=
                       [\<lambda>vs. fst (imleLoss (flatModel\<lparr>gVariables := vs\<rparr>)
                                    (unitDraws\<lparr>pos := 1\<rparr>) batchA matchedA),
                        \<lambda>vs. fst (imleLoss (flatModel\<lparr>gVariables := vs\<rparr>)
                                    (unitDraws\<lparr>pos := 2\<rparr>) batchA matchedA)],
                     iterationCount := 1,
                     trueSampleProvider := (trueSampleProvider demoPage)\<lparr>calls := 1\<rparr>,
                     noiseProvider := (noiseProvider demoPage)\<lparr>calls := 1\<rparr>,
                     tfRandom := unitDraws\<lparr>pos := 3\<rparr>\<rparr>)"
    by (rule demo_part001)
  have pB: "iterateTraining recordCalls demoPage
       = Inr (demoPage\<lparr>optimizerSlots :=
                       [\<lambda>vs. fst (closure_body (flatModel\<lparr>gVariables := vs\<rparr>) unitDraws
                                    batchA oneNoise),
                        \<lambda>vs. fst (closure_body (flatModel\<lparr>gVariables := vs\<rparr>)
                                    (unitDraws\<lparr>pos := 1\<rparr>) batchB oneNoise)],
                     iterationCount := 1,
                     trueSampleProvider := (trueSampleProvider demoPage)\<lparr>calls := 2\<rparr>,
                     noiseProviderFixed := (noiseProviderFixed demoPage)\<lparr>calls := 2\<rparr>,
                     tfRandom := unitDraws\<lparr>pos := 2\<rparr>\<rparr>)"
    by (rule demo_imlelab)
  note inst = iterateTraining_minimize_calls [OF playing, of recordCalls]
  from inst [THEN conjunct1, THEN mp, OF pA]
  obtain rb lat gp idx mn st1 where
    prep: "prepare_iteration demoPage = Inr (rb, lat, idx, st1)"
    and ga: "gather lat idx = Inr mn"
    and steps: "\<forall>j < kGSteps demoPage. \<exists>opt sj.
                  optimize_loop recordCalls rb lat idx j st1 = Inr sj
                \<and> gOptimizer (model sj) = Some opt
                \<and> optimize_loop recordCalls rb lat idx (Suc j) st1
                    = Inr (sj\<lparr>model := (model sj)\<lparr>gVariables :=
                                fst (recordCalls opt (optimizerSlots sj)
                                       (\<lambda>vs. fst (imleLoss ((model demoPage)\<lparr>gVariables := vs\<rparr>)
                                                     ((tfRandom demoPage)\<lparr>pos := pos (tfRandom demoPage)
                                                         + (j + 1) * prod_list (shape mn)\<rparr>)
                                                     rb mn))
                                       (gVariables (model sj)))\<rparr>,
                              optimizerSlots :=
                                snd (recordCalls opt (optimizerSlots sj)
                                       (\<lambda>vs. fst (imleLoss ((model demoPage)\<lparr>gVariables := vs\<rparr>)
                                                     ((tfRandom demoPage)\<lparr>pos := pos (tfRandom demoPage)
                                                         + (j + 1) * prod_list (shape mn)\<rparr>)
                                                     rb mn))
                                       (gVariables (model sj))),
                              tfRandom := (tfRandom demoPage)\<lparr>pos := pos (tfRandom demoPage)
                                              + (j + 2) * prod_list (shape mn)\<rparr>\<rparr>)"
    by blast
  from prep have vals: "rb = batchA" "lat = oneNoise" "idx = [0]"
    by (simp_all add: demo_prepare)
  from ga have mn: "mn = matchedA" by (simp add: vals gather_A)
  have "(1 :: nat) < kGSteps demoPage" by (simp add: demo_sel)
  with steps obtain optA sA where
    a1: "optimize_loop recordCalls rb lat idx 1 st1 = Inr sA"
    and a2: "gOptimizer (model sA) = Some optA"
    and a3: "optimize_loop recordCalls rb lat idx (Suc 1) st1
                    = Inr (sA\<lparr>model := (model sA)\<lparr>gVariables :=
                                fst (recordCalls optA (optimizerSlots sA)
                                       (\<lambda>vs. fst (imleLoss ((model demoPage)\<lparr>gVariables := vs\<rparr>)
                                                     ((tfRandom demoPage)\<lparr>pos := pos (tfRandom demoPage)
                                                         + (1 + 1) * prod_list (shape mn)\<rparr>)
                                                     rb mn))
                                       (gVariables (model sA)))\<rparr>,
                              optimizerSlots :=
                                snd (recordCalls optA (optimizerSlots sA)
                                       (\<lambda>vs. fst (imleLoss ((model demoPage)\<lparr>gVariables := vs\<rparr>)
                                                     ((tfRandom demoPage)\<lparr>pos := pos (tfRandom demoPage)
                                                         + (1 + 1) * prod_list (shape mn)\<rparr>)
                                                     rb mn))
                                       (gVariables (model sA))),
                              tfRandom := (tfRandom demoPage)\<lparr>pos := pos (tfRandom demoPage)
                                              + (1 + 2) * prod_list (shape mn)\<rparr>\<rparr>)"
    by blast
  have n2: "Suc 1 = 2" "(1 + 1) * (1 :: nat) = 2" "(1 + 2) * (1 :: nat) = 3" "(0 :: nat) + 2 = 2"
    "(0 :: nat) + 3 = 3"
    by simp_all
  from a3 have a3': "optimize_loop recordCalls batchA oneNoise [0] 2 st1
           = Inr (sA\<lparr>model := (model sA)\<lparr>gVariables :=
                       fst (recordCalls optA (optimizerSlots sA)
                              (\<lambda>vs. fst (imleLoss (flatModel\<lparr>gVariables := vs\<rparr>)
                                          (unitDraws\<lparr>pos := 2\<rparr>) batchA matchedA))
                              (gVariables (model sA)))\<rparr>,
                     optimizerSlots :=
                       snd (recordCalls optA (optimizerSlots sA)
                              (\<lambda>vs. fst (imleLoss (flatModel\<lparr>gVariables := vs\<rparr>)
                                          (unitDraws\<lparr>pos := 2\<rparr>) batchA matchedA))
                              (gVariables (model sA))),
                     tfRandom := unitDraws\<lparr>pos := 3\<rparr>\<rparr>)"
    by (simp only: vals mn demo_sel fixture_sel n2)
  from prep a1 a2 a3' gen_flat nn_A gather_A
  have A: "(\<exists>st1 opt sj.
         prepare_iteration demoPage = Inr (batchA, oneNoise, [0], st1)
       \<and> generator flatModel oneNoise = Inr flatPool
       \<and> nearest_neighbour_t flatModel batchA flatPool = Inr [0]
       \<and> gather oneNoise [0] = Inr matchedA
       \<and> optimize_loop recordCalls batchA oneNoise [0] 1 st1 = Inr sj
       \<and> gOptimizer (model sj) = Some opt
       \<and> optimize_loop recordCalls batchA oneNoise [0] 2 st1
           = Inr (sj\<lparr>model := (model sj)\<lparr>gVariables :=
                       fst (recordCalls opt (optimizerSlots sj)
                              (\<lambda>vs. fst (imleLoss (flatModel\<lparr>gVariables := vs\<rparr>)
                                          (unitDraws\<lparr>pos := 2\<rparr>) batchA matchedA))
                              (gVariables (model sj)))\<rparr>,
                     optimizerSlots :=
                       snd (recordCalls opt (optimizerSlots sj)
                              (\<lambda>vs. fst (imleLoss (flatModel\<lparr>gVariables := vs\<rparr>)
                                          (unitDraws\<lparr>pos := 2\<rparr>) batchA matchedA))
                              (gVariables (model sj))),
                     tfRandom := unitDraws\<lparr>pos := 3\<rparr>\<rparr>))"
    unfolding vals by blast
  have "(1 :: nat) < kGSteps demoPage" by (simp add: demo_sel)
  with inst [THEN conjunct2, THEN mp, OF pB]
  obtain optB sB latB genB idxB mnB where
    b1: "train_loop recordCalls 1 (demoPage\<lparr>iterationCount := Suc (iterationCount demoPage)\<rparr>)
           = Inr sB"
    and b2: "gOptimizer (model sB) = Some optB"
    and b3: "fst (getLatentPoolFrom
                        ((noiseProviderFixed demoPage)\<lparr>calls := calls (noiseProviderFixed demoPage)
                                                          + 1 * sampleFactor demoPage\<rparr>)
                        (sampleFactor demoPage)) = Inr latB"
    and b4: "generator (model sB) latB = Inr genB"
    and b5: "nearest_neighbour_t (model sB)
                    (batchAt (trueSampleProvider demoPage) (calls (trueSampleProvider demoPage) + 1))
                    genB = Inr idxB"
    and b6: "gather latB idxB = Inr mnB"
    and b7: "train_loop recordCalls (Suc 1)
                 (demoPage\<lparr>iterationCount := Suc (iterationCount demoPage)\<rparr>)
                   = Inr (sB\<lparr>model := (model sB)\<lparr>gVariables :=
                               fst (recordCalls optB (optimizerSlots sB)
                                      (\<lambda>vs. bindE (generator ((model demoPage)\<lparr>gVariables := vs\<rparr>) latB)
                                         (\<lambda>genBatch.
                                       bindE (nearest_neighbour_t ((model demoPage)\<lparr>gVariables := vs\<rparr>)
                                                (batchAt (trueSampleProvider demoPage)
                                                   (calls (trueSampleProvider demoPage) + 1)) genBatch)
                                         (\<lambda>nnIdx.
                                       bindE (gather latB nnIdx)
                                         (\<lambda>matchedNoise.
                                       fst (imleLoss ((model demoPage)\<lparr>gVariables := vs\<rparr>) (tfRandom sB)
                                              (batchAt (trueSampleProvider demoPage)
                                                 (calls (trueSampleProvider demoPage) + 1))
                                              matchedNoise)))))
                                      (gVariables (model sB)))\<rparr>,
                             optimizerSlots :=
                               snd (recordCalls optB (optimizerSlots sB)
                                      (\<lambda>vs. bindE (generator ((model demoPage)\<lparr>gVariables := vs\<rparr>) latB)
                                         (\<lambda>genBatch.
                                       bindE (nearest_neighbour_t ((model demoPage)\<lparr>gVariables := vs\<rparr>)
                                                (batchAt (trueSampleProvider demoPage)
                                                   (calls (trueSampleProvider demoPage) + 1)) genBatch)
                                         (\<lambda>nnIdx.
                                       bindE (gather latB nnIdx)
                                         (\<lambda>matchedNoise.
                                       fst (imleLoss ((model demoPage)\<lparr>gVariables := vs\<rparr>) (tfRandom sB)
                                              (batchAt (trueSampleProvider demoPage)
                                                 (calls (trueSampleProvider demoPage) + 1))
                                              matchedNoise)))))
                                      (gVariables (model sB))),
                             trueSampleProvider :=
                               (trueSampleProvider demoPage)\<lparr>calls := calls (trueSampleProvider demoPage)
                                                               + Suc 1\<rparr>,
                             noiseProviderFixed :=
                               (noiseProviderFixed demoPage)\<lparr>calls := calls (noiseProviderFixed demoPage)
                                                                 + Suc 1 * sampleFactor demoPage\<rparr>,
                             tfRandom := (tfRandom sB)\<lparr>pos := pos (tfRandom sB)
                                                            + prod_list (shape mnB)\<rparr>\<rparr>)"
    by blast
  from b1 have sB: "sB = demoPage\<lparr>optimizerSlots :=
                       [\<lambda>vs. fst (closure_body (flatModel\<lparr>gVariables := vs\<rparr>) unitDraws
                                    batchA oneNoise)],
                     iterationCount := 1,
                     trueSampleProvider := (trueSampleProvider demoPage)\<lparr>calls := 1\<rparr>,
                     noiseProviderFixed := (noiseProviderFixed demoPage)\<lparr>calls := 1\<rparr>,
                     tfRandom := unitDraws\<lparr>pos := 1\<rparr>\<rparr>"
    by (simp only: demo_train_1 sum.inject)
  have msB: "model sB = flatModel" and rsB: "tfRandom sB = unitDraws\<lparr>pos := 1\<rparr>"
    by (simp_all add: sB demo_sel)
  from b3 have latB: "latB = oneNoise" by (simp add: demo_sel pool_eval)
  from b4 have genB: "genB = flatPool" by (simp add: msB latB gen_flat)
  have rbB: "batchAt (trueSampleProvider demoPage) (calls (trueSampleProvider demoPage) + 1) = batchB"
    by (simp add: demo_sel)
  from b5 [unfolded rbB msB genB] have idxB: "idxB = [0]" by (simp add: nn_B)
  from b6 have mnB: "mnB = matchedA" by (simp add: latB idxB gather_A)
  have it: "demoPage\<lparr>iterationCount := Suc (iterationCount demoPage)\<rparr>
      = demoPage\<lparr>iterationCount := 1\<rparr>" by (simp add: demo_sel)
  have c2: "calls (trueSampleProvider demoPage) + Suc 1 = 2"
    "calls (noiseProviderFixed demoPage) + Suc 1 * sampleFactor demoPage = 2"
    by (simp_all add: demo_sel)
  have r2: "(tfRandom sB)\<lparr>pos := pos (tfRandom sB) + prod_list (shape mnB)\<rparr>
      = unitDraws\<lparr>pos := 2\<rparr>"
    by (simp add: rsB mnB fixture_sel)
  from b1 have b1': "train_loop recordCalls 1 (demoPage\<lparr>iterationCount := 1\<rparr>) = Inr sB"
    by (simp only: it)
  from b7 have b7': "train_loop recordCalls 2 (demoPage\<lparr>iterationCount := 1\<rparr>)
           = Inr (sB\<lparr>model := (model sB)\<lparr>gVariables :=
                       fst (recordCalls optB (optimizerSlots sB)
                              (\<lambda>vs. bindE (generator (flatModel\<lparr>gVariables := vs\<rparr>) oneNoise)
                                 (\<lambda>genBatch.
                               bindE (nearest_neighbour_t (flatModel\<lparr>gVariables := vs\<rparr>)
                                        batchB genBatch)
                                 (\<lambda>nnIdx.
                               bindE (gather oneNoise nnIdx)
                                 (\<lambda>matchedNoise.
                               fst (imleLoss (flatModel\<lparr>gVariables := vs\<rparr>)
                                      (unitDraws\<lparr>pos := 1\<rparr>) batchB matchedNoise)))))
                              (gVariables (model sB)))\<rparr>,
                     optimizerSlots :=
                       snd (recordCalls optB (optimizerSlots sB)
                              (\<lambda>vs. bindE (generator (flatModel\<lparr>gVariables := vs\<rparr>) oneNoise)
                                 (\<lambda>genBatch.
                               bindE (nearest_neighbour_t (flatModel\<lparr>gVariables := vs\<rparr>)
                                        batchB genBatch)
                                 (\<lambda>nnIdx.
                               bindE (gather oneNoise nnIdx)
                                 (\<lambda>matchedNoise.
                               fst (imleLoss (flatModel\<lparr>gVariables := vs\<rparr>)
                                      (unitDraws\<lparr>pos := 1\<rparr>) batchB matchedNoise)))))
                              (gVariables (model sB))),
                     trueSampleProvider := (trueSampleProvider demoPage)\<lparr>calls := 2\<rparr>,
                     noiseProviderFixed := (noiseProviderFixed demoPage)\<lparr>calls := 2\<rparr>,
                     tfRandom := unitDraws\<lparr>pos := 2\<rparr>\<rparr>)"
    unfolding it c2 r2 rbB latB demo_sel(4) unfolding rsB n2 .
  from b1' b2 msB gen_flat nn_B gather_A b7'
  have B: "(\<exists>opt sj.
         train_loop recordCalls 1 (demoPage\<lparr>iterationCount := 1\<rparr>) = Inr sj
       \<and> gOptimizer (model sj) = Some opt
       \<and> model sj = flatModel
       \<and> generator flatModel oneNoise = Inr flatPool
       \<and> nearest_neighbour_t flatModel batchB flatPool = Inr [0]
       \<and> gather oneNoise [0] = Inr matchedA
       \<and> train_loop recordCalls 2 (demoPage\<lparr>iterationCount := 1\<rparr>)
           = Inr (sj\<lparr>model := (model sj)\<lparr>gVariables :=
                       fst (recordCalls opt (optimizerSlots sj)
                              (\<lambda>vs. bindE (generator (flatModel\<lparr>gVariables := vs\<rparr>) oneNoise)
                                 (\<lambda>genBatch.
                               bindE (nearest_neighbour_t (flatModel\<lparr>gVariables := vs\<rparr>)
                                        batchB genBatch)
                                 (\<lambda>nnIdx.
                               bindE (gather oneNoise nnIdx)
                                 (\<lambda>matchedNoise.
                               fst (imleLoss (flatModel\<lparr>gVariables := vs\<rparr>)
                                      (unitDraws\<lparr>pos := 1\<rparr>) batchB matchedNoise)))))
                              (gVariables (model sj)))\<rparr>,
                     optimizerSlots :=
                       snd (recordCalls opt (optimizerSlots sj)
                              (\<lambda>vs. bindE (generator (flatModel\<lparr>gVariables := vs\<rparr>) oneNoise)
                                 (\<lambda>genBatch.
                               bindE (nearest_neighbour_t (flatModel\<lparr>gVariables := vs\<rparr>)
                                        batchB genBatch)
                                 (\<lambda>nnIdx.
                               bindE (gather oneNoise nnIdx)
                                 (\<lambda>matchedNoise.
                               fst (imleLoss (flatModel\<lparr>gVariables := vs\<rparr>)
                                      (unitDraws\<lparr>pos := 1\<rparr>) batchB matchedNoise)))))
                              (gVariables (model sj))),
                     trueSampleProvider := (trueSampleProvider demoPage)\<lparr>calls := 2\<rparr>,
                     noiseProviderFixed := (noiseProviderFixed demoPage)\<lparr>calls := 2\<rparr>,
                     tfRandom := unitDraws\<lparr>pos := 2\<rparr>\<rparr>))"
    by blast
  from playing pA pB A B show ?thesis by (intro conjI)
qed

end
